theory Spec2Isabelle
  imports Complex_Main "HOL-Library.Word"
begin

section \<open>Data model of \<^verbatim>\<open>chat-interface.tsx\<close>\<close>

text \<open>
  The component keeps its data in React state (\<^verbatim>\<open>useState\<close>), in refs
  (\<^verbatim>\<open>useRef\<close>) and in objects that several places point to. The handlers are
  \<^verbatim>\<open>async\<close> functions: they run on one cooperative scheduler, call the realtime
  client, the audio handler and the search client, and catch what those throw.

  The embedding is a state record, a log of the calls made (\<open>trace\<close>), and a store of
  Message objects: the \<^verbatim>\<open>messages\<close> array holds references, because
  \<^verbatim>\<open>handleResponse\<close> keeps a pointer to the object it has pushed and mutates it.
\<close>

type_synonym ref = nat
type_synonym exn = string
type_synonym bytes = "8 word list"
type_synonym number = rat

datatype message_type = User | Assistant | Status | Error

record Message =
  type :: message_type
  content :: string

record ToolDeclaration =
  name :: string
  parameters :: "string option"
  description :: string

datatype mode = model_mode | agent_mode

record TurnDetection =
  td_type :: string
  end_of_utterance_detection :: "string option"
  remove_filler_words :: "bool option"

datatype Voice =
    AzureCustom string string "number option"
  | AzureStandard string "number option"
  | PlainVoice string

datatype avatar_config =
    CustomizedAvatar string
  | StandardAvatar string string

record session_config =
  cfg_instructions :: "string option"
  cfg_transcription_model :: string
  cfg_transcription_language :: "string option"
  cfg_turn_detection :: "TurnDetection option"
  cfg_voice :: Voice
  cfg_avatar :: "avatar_config option"
  cfg_tools :: "ToolDeclaration list"
  cfg_temperature :: number
  cfg_modalities :: "string list"
  cfg_input_audio_noise_reduction :: "string option"
  cfg_input_audio_echo_cancellation :: "string option"

datatype client_auth = TokenCredential string | KeyCredential string

datatype model_or_agent =
    ModelTarget string
  | AgentTarget string string string

record RTClient =
  client_endpoint :: string
  client_auth :: client_auth
  modelOrAgent :: model_or_agent
  apiVersion :: string

record SearchClient =
  sc_endpoint :: string
  sc_index :: string
  sc_key :: string

record session =
  session_id :: string
  session_avatar :: "string list option"

text \<open>What \<^verbatim>\<open>sendItem\<close> is given: a tool result, or a message of one input text.\<close>

datatype item_payload =
    FunctionCallOutput string string
  | InputTextMessage string string

text \<open>
  One entry of the trace per call that leaves the component, in program order. A
  \<^verbatim>\<open>setMessages\<close> that appends is logged as well, so that the order of an append
  and a network call can be read off the trace.
\<close>

datatype effect =
    ConsoleLog string string
  | ConsoleError string exn
  | AppendMessage Message
  | Fetch string
  | NewURL string
  | NewRTClient RTClient
  | NewSearchClient SearchClient
  | Configure session_config
  | GetLocalDescription "string list"
  | StartResponseListener
  | Close
  | SendItem item_payload
  | GenerateResponse "string option"
  | Search string nat "string list"
  | WaitForCompletion
  | StopStreamingPlayback
  | StartStreamingPlayback
  | PlayChunk bytes
  | StopRecordAnimation
  | StopPlayChunkAnimation
  | StopRecording
  | StartSessionRecording
  | StopSessionRecording
  | NewProactiveEventManager nat
  | ProactiveStart
  | ProactiveStop
  | UpdateActivity string
  | ClearVideo

subsection \<open>What the server and the libraries answer\<close>

text \<open>
  The realtime client, the search client, \<^verbatim>\<open>fetch\<close>, \<^verbatim>\<open>URL\<close>,
  \<^verbatim>\<open>JSON.parse\<close>, \<^verbatim>\<open>String.prototype.toLowerCase\<close> and the clock are not part
  of the file. Their answers are parameters: an awaited call or a constructor either
  resolves (\<open>None\<close>, or \<open>Inr\<close> with its value) or throws (\<open>Some e\<close>, \<open>Inl e\<close>).
\<close>

text \<open>
  The fields of \<^verbatim>\<open>new Date()\<close> that the options of lines 794--803 ask for: weekday
  and month as names, day and year as numerals, the hour on the twelve-hour clock.
\<close>

record date_time =
  dt_weekday :: string
  dt_month :: string
  dt_day :: string
  dt_year :: string
  dt_hour :: nat
  dt_minute :: nat
  dt_second :: nat
  dt_dayPeriod :: string
  dt_timeZoneName :: string

datatype fetch_reply =
    FetchRejected exn
  | FetchNotOk
  | FetchConfig "string option" "string option"

type_synonym document = "(string \<times> string) list"

record environment =
  now :: date_time
  toLowerCase :: "string \<Rightarrow> string"
  JSON_parse_query :: "string \<Rightarrow> exn + string"
  search_outcome :: "string \<Rightarrow> exn + document list"
  sendItem_outcome :: "item_payload \<Rightarrow> exn option"
  generateResponse_outcome :: "string option \<Rightarrow> exn option"
  close_outcome :: "exn option"
  new_URL_outcome :: "string \<Rightarrow> exn option"
  new_RTClient_outcome :: "RTClient \<Rightarrow> exn option"
  new_SearchClient_outcome :: "SearchClient \<Rightarrow> exn option"
  getLocalDescription_outcome :: "string list \<Rightarrow> exn option"
  configure_outcome :: "session_config \<Rightarrow> exn + session"
  fetch_config :: fetch_reply
  hasRecordedAudio :: bool

subsection \<open>What the server pushes\<close>

datatype audio_event = TranscriptChunk string | AudioChunk bytes

text \<open>
  A text part is its chunks. An audio part has two streams, transcript and audio; the
  list is the order in which their chunks arrive, which is all that the two tasks of
  \<^verbatim>\<open>Promise.all\<close> see of each other. The streams are taken to end: a list holds
  what a stream yields until it is done.
\<close>

datatype content_part =
    TextPart "string list"
  | AudioPart "audio_event list"
  | OtherPart

text \<open>
  \<open>FunctionCallItem functionName arguments callId completion\<close>: \<open>completion\<close>
  is what \<^verbatim>\<open>item.waitForCompletion()\<close> does.
\<close>

datatype response_item =
    MessageItem string "content_part list"
  | FunctionCallItem string string string "exn option"
  | OtherItem

record RTResponse =
  response_items :: "response_item list"
  response_status :: string
  statusDetails :: string

record RTInputAudioItem =
  transcription :: "string option"
  completion :: "exn option"

datatype server_event =
    ResponseEvent RTResponse
  | InputAudioEvent RTInputAudioItem
  | OtherEvent

subsection \<open>The component's state\<close>

record state =
  apiKey :: string
  endpoint :: string
  entraToken :: string
  model :: string
  searchEndpoint :: string
  searchApiKey :: string
  searchIndex :: string
  searchContentField :: string
  searchIdentifierField :: string
  recognitionLanguage :: string
  useNS :: bool
  useEC :: bool
  turnDetectionType :: "TurnDetection option"
  eouDetectionType :: string
  removeFillerWords :: bool
  instructions :: string
  enableProactive :: bool
  temperature :: number
  voiceTemperature :: number
  useCNV :: bool
  voiceName :: string
  customVoiceName :: string
  avatarName :: string
  customAvatarName :: string
  voiceDeploymentId :: string
  tools :: "ToolDeclaration list"
  messages :: "ref list"
  currentMessage :: string
  isRecording :: bool
  isConnected :: bool
  isConnecting :: bool
  isAvatar :: bool
  isCustomAvatar :: bool
  enableSearch :: bool
  hasRecording :: bool
  sessionId :: string
  configLoaded :: bool
  mode :: mode
  agentProjectName :: string
  agentId :: string
  clientRef :: "RTClient option"
  audioHandlerRef :: bool
  proactiveManagerRef :: bool
  isUserSpeaking :: bool
  searchClientRef :: "SearchClient option"
  peerConnection :: bool
  store :: "ref \<Rightarrow> Message"
  next_ref :: ref
  trace :: "effect list"

text \<open>
  \<open>audioHandlerRef\<close>, \<open>proactiveManagerRef\<close> and \<open>peerConnection\<close> say whether the
  reference holds an object. \<open>messages\<close> lists references into \<open>store\<close>;
  \<open>next_ref\<close> is the next fresh one. What the page shows is \<open>rendered\<close>.
\<close>

definition rendered :: "state \<Rightarrow> Message list" where
  "rendered st = map (store st) (messages st)"

section \<open>Statements\<close>

text \<open>
  A statement runs on a state and either completes (\<open>None\<close>) or throws; the
  mutations it made before throwing stay.
\<close>

type_synonym stmt = "state \<Rightarrow> exn option \<times> state"

definition skip :: stmt where
  "skip st = (None, st)"

definition throw :: "exn \<Rightarrow> stmt" where
  "throw e st = (Some e, st)"

fun block :: "stmt list \<Rightarrow> stmt" where
  "block [] st = (None, st)"
| "block (s # ss) st =
     (case s st of
        (None, st') \<Rightarrow> block ss st'
      | (Some e, st') \<Rightarrow> (Some e, st'))"

definition try_catch :: "stmt \<Rightarrow> (exn \<Rightarrow> stmt) \<Rightarrow> stmt" where
  "try_catch body handler st =
     (case body st of
        (None, st') \<Rightarrow> (None, st')
      | (Some e, st') \<Rightarrow> handler e st')"

definition try_finally :: "stmt \<Rightarrow> stmt \<Rightarrow> stmt" where
  "try_finally body fin st =
     (case body st of
        (r, st') \<Rightarrow>
          (case fin st' of
             (None, st'') \<Rightarrow> (r, st'')
           | (Some e, st'') \<Rightarrow> (Some e, st'')))"

definition emit :: "effect \<Rightarrow> state \<Rightarrow> state" where
  "emit e st = st\<lparr>trace := trace st @ [e]\<rparr>"

definition assign :: "(state \<Rightarrow> state) \<Rightarrow> stmt" where
  "assign f st = (None, f st)"

definition call :: "effect \<Rightarrow> stmt" where
  "call e st = (None, emit e st)"

text \<open>\<^verbatim>\<open>await f(...)\<close>: the call is made, then its promise resolves or rejects.\<close>

definition await :: "effect \<Rightarrow> exn option \<Rightarrow> stmt" where
  "await e outcome st = (outcome, emit e st)"

definition console_log :: "string \<Rightarrow> string \<Rightarrow> stmt" where
  "console_log label v = call (ConsoleLog label v)"

definition console_error :: "string \<Rightarrow> exn \<Rightarrow> stmt" where
  "console_error label e = call (ConsoleError label e)"

text \<open>
  \<^verbatim>\<open>audioHandlerRef.current?.m()\<close> and \<^verbatim>\<open>proactiveManagerRef.current?.m()\<close>. The
  methods of the audio handler and of the proactive manager are taken to return.
\<close>

definition audioHandler_opt :: "effect \<Rightarrow> stmt" where
  "audioHandler_opt e st = (if audioHandlerRef st then call e st else skip st)"

definition proactiveManager_opt :: "effect \<Rightarrow> stmt" where
  "proactiveManager_opt e st = (if proactiveManagerRef st then call e st else skip st)"

text \<open>
  \<^verbatim>\<open>await clientRef.current?.m()\<close> makes no call on a null reference;
  \<^verbatim>\<open>await clientRef.current.m()\<close> throws a TypeError there.
\<close>

definition client_opt :: "effect \<Rightarrow> exn option \<Rightarrow> stmt" where
  "client_opt e outcome st =
     (if clientRef st = None then skip st else await e outcome st)"

definition client_req :: "effect \<Rightarrow> exn option \<Rightarrow> stmt" where
  "client_req e outcome st =
     (if clientRef st = None
      then throw ''TypeError: Cannot read properties of null'' st
      else await e outcome st)"

text \<open>
  \<^verbatim>\<open>setMessages((prevMessages) => [...prevMessages, m])\<close> with a new object \<open>m\<close>.
\<close>

definition setMessages_append :: "Message \<Rightarrow> state \<Rightarrow> state" where
  "setMessages_append m st =
     st\<lparr>store := (store st)(next_ref st := m),
        next_ref := Suc (next_ref st),
        messages := messages st @ [next_ref st],
        trace := trace st @ [AppendMessage m]\<rparr>"

section \<open>The handlers\<close>

text \<open>
  A handler is a closure of one render: the React state it names (\<^verbatim>\<open>isRecording\<close>,
  \<^verbatim>\<open>currentMessage\<close>, \<^verbatim>\<open>entraToken\<close>, ...) is the state at the call, also after a
  setter has run, while a ref (\<^verbatim>\<open>clientRef.current\<close>) is read when the statement
  runs. In the definitions the handler's argument \<open>st\<close> is the state at the call, and
  a statement reads refs from the state it is run on.

  One handler runs at a time. What another handler did while this one was suspended at
  an \<^verbatim>\<open>await\<close> shows as a different state to continue from, which is why the
  properties below are stated for every state.
\<close>

subsection \<open>\<^verbatim>\<open>handleResponse\<close>\<close>

text \<open>
  The body of the loops over \<^verbatim>\<open>textChunks()\<close> and \<^verbatim>\<open>transcriptChunks()\<close>:
  \<^verbatim>\<open>message.content += text\<close> on the object \<open>a\<close> that was pushed, then an updater
  that copies \<^verbatim>\<open>message.content\<close> into the last element of the array when that
  element's content is truthy, and returns a copy of the array. The copy holds the same
  objects, so \<open>messages\<close> is unchanged; the updater is run at once.
\<close>

definition setMessages_last :: "ref \<Rightarrow> state \<Rightarrow> state" where
  "setMessages_last a st =
     (case messages st of
        [] \<Rightarrow> st
      | _ # _ \<Rightarrow>
          (if content (store st (last (messages st))) \<noteq> []
           then st\<lparr>store := (store st)
                  (last (messages st) :=
                     (store st (last (messages st)))\<lparr>content := content (store st a)\<rparr>)\<rparr>
           else st))"

definition appendText :: "ref \<Rightarrow> string \<Rightarrow> stmt" where
  "appendText a text st =
     (None,
      setMessages_last a
        (st\<lparr>store := (store st)(a := (store st a)\<lparr>content := content (store st a) @ text\<rparr>)\<rparr>))"

text \<open>
  \<^verbatim>\<open>textTask\<close> handles a transcript chunk, \<^verbatim>\<open>audioTask\<close> an audio chunk (the
  callback it hands to \<^verbatim>\<open>playChunk\<close> runs inside the audio handler).
  \<^verbatim>\<open>audioTask\<close> stops and restarts playback before its first chunk, and
  \<^verbatim>\<open>await Promise.all([textTask(), audioTask()])\<close> resumes when both streams have
  ended.
\<close>

fun audioEvent :: "ref \<Rightarrow> audio_event \<Rightarrow> stmt" where
  "audioEvent a (TranscriptChunk text) = appendText a text"
| "audioEvent a (AudioChunk audio) = audioHandler_opt (PlayChunk audio)"

fun contentPart :: "ref \<Rightarrow> content_part \<Rightarrow> stmt" where
  "contentPart a (TextPart chunks) = block (map (appendText a) chunks)"
| "contentPart a (AudioPart arrivals) =
     block ([audioHandler_opt StopStreamingPlayback,
             audioHandler_opt StartStreamingPlayback]
            @ map (audioEvent a) arrivals)"
| "contentPart a OtherPart = skip"

definition messageItem :: "content_part list \<Rightarrow> stmt" where
  "messageItem parts st =
     block (map (contentPart (next_ref st)) parts)
       (setMessages_append \<lparr>type = Assistant, content = []\<rparr> st)"

text \<open>\<^verbatim>\<open>document[field]\<close> inside a template string.\<close>

definition field_text :: "document \<Rightarrow> string \<Rightarrow> string" where
  "field_text d f = (case map_of d f of None \<Rightarrow> ''undefined'' | Some v \<Rightarrow> v)"

definition separator :: string where
  "separator = [CHR 0x0A] @ ''-----'' @ [CHR 0x0A]"

definition resultText :: "string \<Rightarrow> string \<Rightarrow> document list \<Rightarrow> string" where
  "resultText idField contentField results =
     foldl (\<lambda>acc d. acc @ ''['' @ field_text d idField @ '']: ''
                         @ field_text d contentField @ separator)
       [] results"

text \<open>
  \<^verbatim>\<open>toLocaleString("en-US", {...})\<close> with the options of lines 794--803: the
  en-US pattern of a long weekday and month, numeric day and year, and hour, minute
  and second of two digits each, followed by the short time zone name.
\<close>

definition two_digit :: "nat \<Rightarrow> string" where
  "two_digit n = [''0123456789'' ! (n div 10 mod 10), ''0123456789'' ! (n mod 10)]"

definition toLocaleString :: "date_time \<Rightarrow> string" where
  "toLocaleString d =
     dt_weekday d @ '', '' @ dt_month d @ '' '' @ dt_day d @ '', '' @ dt_year d
     @ '' at '' @ two_digit (dt_hour d) @ '':'' @ two_digit (dt_minute d)
     @ '':'' @ two_digit (dt_second d) @ '' '' @ dt_dayPeriod d
     @ '' '' @ dt_timeZoneName d"

definition get_time_call :: "environment \<Rightarrow> string \<Rightarrow> stmt" where
  "get_time_call w callId =
     block [console_log ''Current time:'' (toLocaleString (now w)),
            client_opt (SendItem (FunctionCallOutput (toLocaleString (now w)) callId))
              (sendItem_outcome w (FunctionCallOutput (toLocaleString (now w)) callId)),
            client_opt (GenerateResponse None) (generateResponse_outcome w None)]"

definition search_call :: "environment \<Rightarrow> state \<Rightarrow> string \<Rightarrow> string \<Rightarrow> stmt" where
  "search_call w st arguments callId =
     (case JSON_parse_query w arguments of
        Inl e \<Rightarrow> throw e
      | Inr query \<Rightarrow>
          block [console_log ''Search query:'' query,
                 (\<lambda>s. if searchClientRef s = None then skip s
                   else
                     block [assign (setMessages_append
                              \<lparr>type = Status, content = ''Searching ['' @ query @ '']...''\<rparr>),
                            (case search_outcome w query of
                               Inl e \<Rightarrow>
                                 await (Search query 5
                                   [searchContentField st, searchIdentifierField st]) (Some e)
                             | Inr results \<Rightarrow>
                                 block [await (Search query 5
                                          [searchContentField st, searchIdentifierField st]) None,
                                        console_log ''Search results:''
                                          (resultText (searchIdentifierField st)
                                             (searchContentField st) results),
                                        client_opt
                                          (SendItem (FunctionCallOutput
                                             (resultText (searchIdentifierField st)
                                                (searchContentField st) results) callId))
                                          (sendItem_outcome w (FunctionCallOutput
                                             (resultText (searchIdentifierField st)
                                                (searchContentField st) results) callId)),
                                        client_opt (GenerateResponse None)
                                          (generateResponse_outcome w None)])] s)])"

definition functionCallItem ::
  "environment \<Rightarrow> state \<Rightarrow> string \<Rightarrow> string \<Rightarrow> string \<Rightarrow> exn option \<Rightarrow> stmt" where
  "functionCallItem w st functionName arguments callId completed =
     block [await WaitForCompletion completed,
            console_log ''Function call output:'' functionName,
            (if functionName = ''get_time'' then get_time_call w callId
             else if functionName = ''search'' then search_call w st arguments callId
             else skip)]"

fun responseItem :: "environment \<Rightarrow> state \<Rightarrow> response_item \<Rightarrow> stmt" where
  "responseItem w st (MessageItem role parts) =
     (if role = ''assistant'' then messageItem parts else skip)"
| "responseItem w st (FunctionCallItem functionName arguments callId completed) =
     functionCallItem w st functionName arguments callId completed"
| "responseItem w st OtherItem = skip"

definition handleResponse :: "environment \<Rightarrow> RTResponse \<Rightarrow> stmt" where
  "handleResponse w response st =
     block (map (responseItem w st) (response_items response)
            @ [if response_status response = ''failed''
               then assign (setMessages_append
                      \<lparr>type = Error,
                       content = ''Response failed:'' @ statusDetails response\<rparr>)
               else skip]) st"

subsection \<open>\<^verbatim>\<open>handleInputAudio\<close> and the event loop\<close>

definition handleInputAudio :: "RTInputAudioItem \<Rightarrow> stmt" where
  "handleInputAudio item =
     block [assign (\<lambda>s. s\<lparr>isUserSpeaking := True\<rparr>),
            audioHandler_opt StopStreamingPlayback,
            await WaitForCompletion (completion item),
            assign (\<lambda>s. s\<lparr>isUserSpeaking := False\<rparr>),
            assign (setMessages_append
              \<lparr>type = User,
               content = (case transcription item of None \<Rightarrow> [] | Some t \<Rightarrow> t)\<rparr>)]"

fun serverEvent :: "environment \<Rightarrow> server_event \<Rightarrow> stmt" where
  "serverEvent w (ResponseEvent response) = handleResponse w response"
| "serverEvent w (InputAudioEvent item) =
     block [proactiveManager_opt (UpdateActivity ''user start to speak''),
            handleInputAudio item]"
| "serverEvent w OtherEvent = skip"

text \<open>The loop over \<^verbatim>\<open>clientRef.current.events()\<close>, on the events the stream yields.\<close>

definition startResponseListener :: "environment \<Rightarrow> server_event list \<Rightarrow> stmt" where
  "startResponseListener w events st =
     (if clientRef st = None then skip st
      else try_catch (block (map (serverEvent w) events))
             (\<lambda>e s. if clientRef s \<noteq> None
                    then console_error ''Response iteration error:'' e s
                    else skip s) st)"

subsection \<open>\<^verbatim>\<open>sendMessage\<close>\<close>

text \<open>
  \<^verbatim>\<open>String.prototype.trim\<close> removes the WhiteSpace and LineTerminator code points
  from both ends. A text is its UTF-8 bytes, so each code point is the list of its bytes:
  U+0009 to U+000D and U+0020, U+00A0, U+1680, U+2000 to U+200A, U+2028, U+2029, U+202F,
  U+205F, U+3000 and U+FEFF.
\<close>

definition whitespace :: "string list" where
  "whitespace =
     [[CHR 0x09], [CHR 0x0A], [CHR 0x0B], [CHR 0x0C], [CHR 0x0D], [CHR 0x20],
      [CHR 0xC2, CHR 0xA0],
      [CHR 0xE1, CHR 0x9A, CHR 0x80],
      [CHR 0xE2, CHR 0x80, CHR 0x80], [CHR 0xE2, CHR 0x80, CHR 0x81],
      [CHR 0xE2, CHR 0x80, CHR 0x82], [CHR 0xE2, CHR 0x80, CHR 0x83],
      [CHR 0xE2, CHR 0x80, CHR 0x84], [CHR 0xE2, CHR 0x80, CHR 0x85],
      [CHR 0xE2, CHR 0x80, CHR 0x86], [CHR 0xE2, CHR 0x80, CHR 0x87],
      [CHR 0xE2, CHR 0x80, CHR 0x88], [CHR 0xE2, CHR 0x80, CHR 0x89],
      [CHR 0xE2, CHR 0x80, CHR 0x8A],
      [CHR 0xE2, CHR 0x80, CHR 0xA8], [CHR 0xE2, CHR 0x80, CHR 0xA9],
      [CHR 0xE2, CHR 0x80, CHR 0xAF],
      [CHR 0xE2, CHR 0x81, CHR 0x9F],
      [CHR 0xE3, CHR 0x80, CHR 0x80],
      [CHR 0xEF, CHR 0xBB, CHR 0xBF]]"

text \<open>\<open>strip ps s\<close> removes from the front of \<open>s\<close> every leading text of \<open>ps\<close>.\<close>

function strip :: "string list \<Rightarrow> string \<Rightarrow> string" where
  "strip ps s =
     (case find (\<lambda>p. p \<noteq> [] \<and> take (length p) s = p) ps of
        None \<Rightarrow> s
      | Some p \<Rightarrow> strip ps (drop (length p) s))"
  by pat_completeness auto
termination
proof (relation "measure (\<lambda>(ps, s). length s)")
  show "wf (measure (\<lambda>(ps, s). length s))" by simp
next
  fix ps :: "string list" and s p :: string
  assume "find (\<lambda>p. p \<noteq> [] \<and> take (length p) s = p) ps = Some p"
  then have "p \<noteq> []" and tk: "take (length p) s = p"
    by (auto simp: find_Some_iff)
  have "length (take (length p) s) = length p" by (simp only: tk)
  then have "length p \<le> length s" by simp
  with \<open>p \<noteq> []\<close> show "((ps, drop (length p) s), (ps, s)) \<in> measure (\<lambda>(ps, s). length s)"
    by (cases p) auto
qed

declare strip.simps [simp del]

definition trim :: "string \<Rightarrow> string" where
  "trim s = rev (strip (map rev whitespace) (rev (strip whitespace s)))"

definition sendMessage :: "environment \<Rightarrow> stmt" where
  "sendMessage w st =
     (if trim (currentMessage st) \<noteq> [] \<and> clientRef st \<noteq> None
      then try_catch
             (block [assign (\<lambda>s. s\<lparr>currentMessage := []\<rparr>),
                     assign (setMessages_append
                       \<lparr>type = User, content = currentMessage st\<rparr>),
                     client_req (SendItem (InputTextMessage ''user'' (currentMessage st)))
                       (sendItem_outcome w (InputTextMessage ''user'' (currentMessage st))),
                     client_req (GenerateResponse None) (generateResponse_outcome w None)])
             (\<lambda>e. console_error ''Failed to send message:'' e) st
      else skip st)"

subsection \<open>\<^verbatim>\<open>disconnect\<close>\<close>

text \<open>
  A call that passes the guard calls \<^verbatim>\<open>close()\<close> and is suspended at the
  \<^verbatim>\<open>await\<close>; the client reference is cleared only when it resumes. The two halves
  are \<open>disconnect_suspend\<close> and \<open>disconnect_settle\<close> (with \<open>c\<close> the state at the
  call, for \<^verbatim>\<open>isRecording\<close>), so that what happened in between is the state the
  second half resumes on.
\<close>

definition disconnect_suspend :: "state \<Rightarrow> state" where
  "disconnect_suspend st = emit Close st"

definition disconnect_settle :: "environment \<Rightarrow> state \<Rightarrow> stmt" where
  "disconnect_settle w c =
     try_catch
       (block [(\<lambda>s. (close_outcome w, s)),
               assign (\<lambda>s. s\<lparr>clientRef := None\<rparr>),
               assign (\<lambda>s. s\<lparr>peerConnection := False\<rparr>),
               assign (\<lambda>s. s\<lparr>isConnected := False\<rparr>),
               audioHandler_opt StopStreamingPlayback,
               proactiveManager_opt ProactiveStop,
               assign (\<lambda>s. s\<lparr>isUserSpeaking := False\<rparr>),
               audioHandler_opt StopRecordAnimation,
               audioHandler_opt StopPlayChunkAnimation,
               (if isRecording c
                then block [audioHandler_opt StopRecording,
                            assign (\<lambda>s. s\<lparr>isRecording := False\<rparr>)]
                else skip),
               (\<lambda>s. if audioHandlerRef s
                 then block [call StopSessionRecording,
                             assign (\<lambda>s. s\<lparr>hasRecording := hasRecordedAudio w\<rparr>)] s
                 else skip s)])
       (\<lambda>e. console_error ''Disconnect failed:'' e)"

text \<open>One call of \<^verbatim>\<open>disconnect\<close> that is awaited: nothing runs in between.\<close>

definition disconnect :: "environment \<Rightarrow> stmt" where
  "disconnect w st =
     (if clientRef st \<noteq> None
      then disconnect_settle w st (disconnect_suspend st)
      else skip st)"

text \<open>
  Two calls in a row that are not awaited, \<^verbatim>\<open>disconnect(); disconnect()\<close>: the
  second is entered while the first is suspended, then the first resumes, then the
  second.
\<close>

definition disconnect_overlapping :: "environment \<Rightarrow> stmt" where
  "disconnect_overlapping w st =
     (if clientRef st \<noteq> None
      then (if clientRef (disconnect_suspend st) \<noteq> None
            then block [disconnect_settle w st,
                        disconnect_settle w (disconnect_suspend st)]
                   (disconnect_suspend (disconnect_suspend st))
            else disconnect_settle w st (disconnect_suspend st))
      else skip st)"

subsection \<open>\<^verbatim>\<open>handleConnect\<close>\<close>

fun includes_str :: "string \<Rightarrow> string \<Rightarrow> bool" where
  "includes_str [] p = (p = [])"
| "includes_str (c # cs) p = (take (length p) (c # cs) = p \<or> includes_str cs p)"

definition isCascaded :: "mode \<Rightarrow> string \<Rightarrow> bool" where
  "isCascaded m mdl =
     (if m = agent_mode then True
      else mdl \<in> set [''gpt-4o'', ''gpt-4o-mini'', ''gpt-4.1'', ''gpt-4.1-mini'',
                       ''gpt-4.1-nano'', ''phi4-mini''])"

text \<open>
  \<^verbatim>\<open>avatarName.split("-")[0]\<close> is the text before the first dash,
  \<^verbatim>\<open>avatarName.split("-").slice(1).join("-")\<close> the text after it. The video
  parameters are a constant of the source.
\<close>

definition getAvatarConfig :: "environment \<Rightarrow> state \<Rightarrow> avatar_config option" where
  "getAvatarConfig w st =
     (if \<not> isAvatar st then None
      else if isCustomAvatar st \<and> customAvatarName st \<noteq> []
      then Some (CustomizedAvatar (customAvatarName st))
      else if isAvatar st \<and> \<not> isCustomAvatar st
      then Some (StandardAvatar
                   (toLowerCase w (takeWhile (\<lambda>c. c \<noteq> CHR ''-'') (avatarName st)))
                   (drop 1 (dropWhile (\<lambda>c. c \<noteq> CHR ''-'') (avatarName st))))
      else None)"

text \<open>
  \<^verbatim>\<open>turnDetection\<close> is the object held in the React state
  \<^verbatim>\<open>turnDetectionType\<close>; the two assignments change that object.
\<close>

definition turnDetection :: "state \<Rightarrow> TurnDetection option" where
  "turnDetection st =
     map_option
       (\<lambda>td. (if td_type td = ''azure_semantic_vad''
               then (\<lambda>t. t\<lparr>remove_filler_words := Some (removeFillerWords st)\<rparr>)
               else (\<lambda>t. t))
              (if eouDetectionType st \<noteq> ''none'' \<and> isCascaded (mode st) (model st)
               then td\<lparr>end_of_utterance_detection := Some (eouDetectionType st)\<rparr>
               else td))
       (turnDetectionType st)"

definition voice :: "environment \<Rightarrow> state \<Rightarrow> Voice" where
  "voice w st =
     (if useCNV st
      then AzureCustom (customVoiceName st) (voiceDeploymentId st)
             (if includes_str (toLowerCase w (customVoiceName st)) ''dragonhd''
              then Some (voiceTemperature st) else None)
      else if includes_str (voiceName st) ''-''
      then AzureStandard (voiceName st)
             (if includes_str (toLowerCase w (voiceName st)) ''dragonhd''
              then Some (voiceTemperature st) else None)
      else PlainVoice (voiceName st))"

definition clientAuth :: "state \<Rightarrow> client_auth" where
  "clientAuth st =
     (if entraToken st \<noteq> [] then TokenCredential (entraToken st)
      else KeyCredential (apiKey st))"

definition new_client :: "state \<Rightarrow> RTClient" where
  "new_client st =
     \<lparr>client_endpoint = endpoint st,
      client_auth = clientAuth st,
      modelOrAgent =
        (if mode st = agent_mode
         then AgentTarget (agentId st) (agentProjectName st) (entraToken st)
         else ModelTarget (model st)),
      apiVersion = ''2025-05-01-preview''\<rparr>"

definition session_request :: "environment \<Rightarrow> state \<Rightarrow> session_config" where
  "session_request w st =
     \<lparr>cfg_instructions = (if 0 < length (instructions st) then Some (instructions st) else None),
      cfg_transcription_model =
        (if includes_str (model st) ''realtime-preview'' then ''whisper-1''
         else ''azure-fast-transcription''),
      cfg_transcription_language =
        (if recognitionLanguage st = ''auto'' then None else Some (recognitionLanguage st)),
      cfg_turn_detection = turnDetection st,
      cfg_voice = voice w st,
      cfg_avatar = getAvatarConfig w st,
      cfg_tools = tools st,
      cfg_temperature = temperature st,
      cfg_modalities = [''text'', ''audio''],
      cfg_input_audio_noise_reduction =
        (if useNS st then Some ''azure_deep_noise_suppression'' else None),
      cfg_input_audio_echo_cancellation =
        (if useEC st then Some ''server_echo_cancellation'' else None)\<rparr>"

text \<open>The refresh of endpoint and token from \<^verbatim>\<open>/config\<close>, in its own try.\<close>

definition refresh_config :: "environment \<Rightarrow> stmt" where
  "refresh_config w =
     try_catch
       (case fetch_config w of
          FetchRejected e \<Rightarrow> await (Fetch ''/config'') (Some e)
        | FetchNotOk \<Rightarrow> await (Fetch ''/config'') None
        | FetchConfig ep tok \<Rightarrow>
            block [await (Fetch ''/config'') None,
                   (case ep of
                      None \<Rightarrow> skip
                    | Some v \<Rightarrow> if v \<noteq> [] then assign (\<lambda>s. s\<lparr>endpoint := v\<rparr>) else skip),
                   (case tok of
                      None \<Rightarrow> skip
                    | Some v \<Rightarrow> if v \<noteq> [] then assign (\<lambda>s. s\<lparr>entraToken := v\<rparr>) else skip)])
       (\<lambda>e. console_error ''Failed to refresh token:'' e)"

text \<open>
  What follows a session that \<^verbatim>\<open>configure\<close> returned. \<^verbatim>\<open>getLocalDescription\<close>
  creates the peer connection of the avatar, which may throw, and starts the WebRTC
  negotiation, which then runs on its own with its own \<^verbatim>\<open>try\<close>; it is one trace
  entry. The start of the event loop is one entry as well: the loop is
  \<^verbatim>\<open>startResponseListener\<close> above, fed by the events that arrive later.
\<close>

definition after_configure :: "environment \<Rightarrow> state \<Rightarrow> session \<Rightarrow> stmt" where
  "after_configure w st sess =
     block [(case session_avatar sess of
               None \<Rightarrow> skip
             | Some ice_servers \<Rightarrow>
                 block [await (GetLocalDescription ice_servers)
                          (getLocalDescription_outcome w ice_servers),
                        assign (\<lambda>s. s\<lparr>peerConnection := True\<rparr>)]),
            (\<lambda>s. if clientRef s = None then skip s else call StartResponseListener s),
            audioHandler_opt StartSessionRecording,
            assign (\<lambda>s. s\<lparr>isConnected := True\<rparr>),
            assign (setMessages_append
              \<lparr>type = Status,
               content = ''Session started, click on the mic button to start conversation! debug id: ''
                           @ session_id sess\<rparr>),
            assign (\<lambda>s. s\<lparr>sessionId := session_id sess\<rparr>),
            (if enableProactive st
             then block [call (NewProactiveEventManager 10000),
                         assign (\<lambda>s. s\<lparr>proactiveManagerRef := True\<rparr>),
                         call ProactiveStart]
             else skip)]"

text \<open>
  From \<^verbatim>\<open>new RTClient(new URL(endpoint), ...)\<close> to the end of the \<^verbatim>\<open>try\<close>
  block. The argument \<^verbatim>\<open>new URL(endpoint)\<close> is evaluated first and may throw, then
  the constructor may; \<^verbatim>\<open>new SearchClient(..., new AzureKeyCredential(searchApiKey))\<close>
  may throw as well, and the reference is assigned only when it returns.
\<close>

definition search_client :: "state \<Rightarrow> SearchClient" where
  "search_client st =
     \<lparr>sc_endpoint = searchEndpoint st, sc_index = searchIndex st, sc_key = searchApiKey st\<rparr>"

definition open_session :: "environment \<Rightarrow> state \<Rightarrow> stmt" where
  "open_session w st =
     block [await (NewURL (endpoint st)) (new_URL_outcome w (endpoint st)),
            await (NewRTClient (new_client st)) (new_RTClient_outcome w (new_client st)),
            assign (\<lambda>s. s\<lparr>clientRef := Some (new_client st)\<rparr>),
            console_log ''Client created:'' ''connectAvatar'',
            assign (\<lambda>s. s\<lparr>turnDetectionType := turnDetection st\<rparr>),
            (if enableSearch st
             then block [await (NewSearchClient (search_client st))
                           (new_SearchClient_outcome w (search_client st)),
                         assign (\<lambda>s. s\<lparr>searchClientRef := Some (search_client st)\<rparr>)]
             else skip),
            (case configure_outcome w (session_request w st) of
               Inl e \<Rightarrow> client_req (Configure (session_request w st)) (Some e)
             | Inr sess \<Rightarrow>
                 block [client_req (Configure (session_request w st)) None,
                        after_configure w st sess])]"

text \<open>The \<^verbatim>\<open>try\<close> block; the \<^verbatim>\<open>return\<close> after the agent check ends it.\<close>

definition connect_body :: "environment \<Rightarrow> state \<Rightarrow> stmt" where
  "connect_body w st =
     block [assign (\<lambda>s. s\<lparr>isConnecting := True\<rparr>),
            (if configLoaded st then refresh_config w else skip),
            (if mode st = agent_mode \<and> agentId st = []
             then assign (setMessages_append
                    \<lparr>type = Error, content = ''Please input/select an agent.''\<rparr>)
             else open_session w st)]"

definition handleConnect :: "environment \<Rightarrow> stmt" where
  "handleConnect w st =
     (if \<not> isConnected st
      then try_finally
             (try_catch (connect_body w st)
                (\<lambda>e. block [console_error ''Connection failed:'' e,
                            assign (setMessages_append
                              \<lparr>type = Error,
                               content = ''Error connecting to the server: '' @ e\<rparr>)]))
             (assign (\<lambda>s. s\<lparr>isConnecting := False\<rparr>)) st
      else block [call ClearVideo, disconnect w] st)"

section \<open>Notions used in the statements\<close>

text \<open>The two streams of an audio part, each in its own order of arrival.\<close>

fun transcripts :: "audio_event list \<Rightarrow> string list" where
  "transcripts [] = []"
| "transcripts (TranscriptChunk t # evs) = t # transcripts evs"
| "transcripts (AudioChunk b # evs) = transcripts evs"

fun audios :: "audio_event list \<Rightarrow> bytes list" where
  "audios [] = []"
| "audios (TranscriptChunk t # evs) = audios evs"
| "audios (AudioChunk b # evs) = b # audios evs"

text \<open>The text fragments of a content part, in arrival order.\<close>

fun fragments :: "content_part \<Rightarrow> string list" where
  "fragments (TextPart chunks) = chunks"
| "fragments (AudioPart arrivals) = transcripts arrivals"
| "fragments OtherPart = []"

definition playback_calls :: "bool \<Rightarrow> content_part \<Rightarrow> effect list" where
  "playback_calls handler p =
     (case p of
        AudioPart arrivals \<Rightarrow>
          (if handler
           then StopStreamingPlayback # StartStreamingPlayback # map PlayChunk (audios arrivals)
           else [])
      | _ \<Rightarrow> [])"

text \<open>The calls that construct or use the realtime client.\<close>

definition is_client_call :: "effect \<Rightarrow> bool" where
  "is_client_call e =
     (case e of
        NewRTClient _ \<Rightarrow> True
      | Configure _ \<Rightarrow> True
      | Close \<Rightarrow> True
      | SendItem _ \<Rightarrow> True
      | GenerateResponse _ \<Rightarrow> True
      | _ \<Rightarrow> False)"

text \<open>
  One block of the search output, and the number of places of a text at which a pattern
  starts.
\<close>

definition result_block :: "string \<Rightarrow> string \<Rightarrow> document \<Rightarrow> string" where
  "result_block idField contentField d =
     ''['' @ field_text d idField @ '']: '' @ field_text d contentField @ separator"

definition starts_with :: "string \<Rightarrow> string \<Rightarrow> bool" where
  "starts_with p s = (take (length p) s = p)"

fun occurrences :: "string \<Rightarrow> string \<Rightarrow> nat" where
  "occurrences p [] = 0"
| "occurrences p (c # cs) = (if starts_with p (c # cs) then 1 else 0) + occurrences p cs"

text \<open>
  The first of the calls of \<open>open_session\<close> that throws, in the order in which they
  are made, if any does.
\<close>

definition connect_failure :: "environment \<Rightarrow> state \<Rightarrow> exn option" where
  "connect_failure w st =
     (case new_URL_outcome w (endpoint st) of
        Some e \<Rightarrow> Some e
      | None \<Rightarrow>
          (case new_RTClient_outcome w (new_client st) of
             Some e \<Rightarrow> Some e
           | None \<Rightarrow>
               (case (if enableSearch st then new_SearchClient_outcome w (search_client st)
                      else None) of
                  Some e \<Rightarrow> Some e
                | None \<Rightarrow>
                    (case configure_outcome w (session_request w st) of
                       Inl e \<Rightarrow> Some e
                     | Inr sess \<Rightarrow>
                         (case session_avatar sess of
                            None \<Rightarrow> None
                          | Some ice_servers \<Rightarrow>
                              getLocalDescription_outcome w ice_servers)))))"

section \<open>Example inputs\<close>

text \<open>
  An environment in which the calls of a session resolve, and the state of the first
  render. Of the texts it is asked about it knows the ones used below: the example
  endpoint is a URL and the empty text is none, \<open>test_arguments\<close> and \<^verbatim>\<open>{}\<close> are
  JSON and \<^verbatim>\<open>{\<close> is not, and a search client wants a key that is not empty.
\<close>

definition test_arguments :: string where
  \<open>test_arguments = ''{"query":"test"}''\<close>

text \<open>
  The example texts are ASCII, on which \<^verbatim>\<open>toLowerCase\<close> maps A to Z to a to z and
  nothing else.
\<close>

definition ascii_toLowerCase :: "string \<Rightarrow> string" where
  "ascii_toLowerCase s =
     map (\<lambda>c. if 65 \<le> (of_char c :: nat) \<and> (of_char c :: nat) \<le> 90
              then char_of (of_char c + 32 :: nat) else c) s"

definition example_endpoint :: string where
  "example_endpoint = ''https://example.cognitiveservices.azure.com/''"

definition quiet_environment :: environment where
  "quiet_environment =
     \<lparr>now = \<lparr>dt_weekday = ''Tuesday'', dt_month = ''November'', dt_day = ''3'',
              dt_year = ''2026'', dt_hour = 10, dt_minute = 28, dt_second = 0,
              dt_dayPeriod = ''AM'', dt_timeZoneName = ''UTC''\<rparr>,
      toLowerCase = ascii_toLowerCase,
      JSON_parse_query =
        (\<lambda>s. if s = test_arguments then Inr ''test''
             else if s = ''{}'' then Inr ''undefined''
             else Inl ''SyntaxError: Unexpected end of JSON input''),
      search_outcome = (\<lambda>_. Inr []),
      sendItem_outcome = (\<lambda>_. None),
      generateResponse_outcome = (\<lambda>_. None),
      close_outcome = None,
      new_URL_outcome =
        (\<lambda>u. if u = example_endpoint then None else Some ''TypeError: Invalid URL''),
      new_RTClient_outcome = (\<lambda>_. None),
      new_SearchClient_outcome =
        (\<lambda>sc. if sc_key sc = [] then Some ''Error: key must be a non-empty string''
              else None),
      getLocalDescription_outcome = (\<lambda>_. None),
      configure_outcome = (\<lambda>_. Inr \<lparr>session_id = ''sess_1'', session_avatar = None\<rparr>),
      fetch_config = FetchNotOk,
      hasRecordedAudio = False\<rparr>"

definition failing_close :: environment where
  "failing_close = quiet_environment\<lparr>close_outcome := Some ''Error: socket hang up''\<rparr>"

definition failing_send :: environment where
  "failing_send =
     quiet_environment\<lparr>sendItem_outcome := (\<lambda>_. Some ''Error: not connected'')\<rparr>"

definition failing_search :: environment where
  "failing_search =
     quiet_environment\<lparr>search_outcome := (\<lambda>_. Inl ''RestError: service unavailable'')\<rparr>"

definition two_results :: environment where
  "two_results =
     quiet_environment\<lparr>search_outcome :=
       (\<lambda>_. Inr [[(''chunk_id'', ''doc1''), (''chunk'', ''Paris'')],
                 [(''chunk_id'', ''doc2''), (''chunk'', ''Rome'')]])\<rparr>"

definition failing_configure :: environment where
  "failing_configure =
     quiet_environment\<lparr>configure_outcome := (\<lambda>_. Inl ''Error: 401 Unauthorized'')\<rparr>"

definition initial_state :: state where
  "initial_state =
     \<lparr>apiKey = [], endpoint = [], entraToken = [], model = ''gpt-4o-realtime-preview'',
      searchEndpoint = [], searchApiKey = [], searchIndex = [],
      searchContentField = ''chunk'', searchIdentifierField = ''chunk_id'',
      recognitionLanguage = ''auto'', useNS = False, useEC = False,
      turnDetectionType = Some \<lparr>td_type = ''server_vad'',
                                end_of_utterance_detection = None,
                                remove_filler_words = None\<rparr>,
      eouDetectionType = ''none'', removeFillerWords = False, instructions = [],
      enableProactive = False, temperature = 9 / 10, voiceTemperature = 9 / 10,
      useCNV = False, voiceName = ''en-US-AvaNeural'', customVoiceName = [],
      avatarName = ''Lisa-casual-sitting'', customAvatarName = [], voiceDeploymentId = [],
      tools = [], messages = [], currentMessage = [], isRecording = False,
      isConnected = False, isConnecting = False, isAvatar = False, isCustomAvatar = False,
      enableSearch = False, hasRecording = False, sessionId = [], configLoaded = False,
      mode = model_mode, agentProjectName = [], agentId = [],
      clientRef = None, audioHandlerRef = False, proactiveManagerRef = False,
      isUserSpeaking = False, searchClientRef = None, peerConnection = False,
      store = (\<lambda>_. \<lparr>type = Status, content = []\<rparr>), next_ref = 0, trace = []\<rparr>"

definition example_client :: RTClient where
  "example_client =
     \<lparr>client_endpoint = example_endpoint,
      client_auth = KeyCredential ''secret'',
      modelOrAgent = ModelTarget ''gpt-4o-realtime-preview'',
      apiVersion = ''2025-05-01-preview''\<rparr>"

text \<open>A session in progress: the client is set and the audio handler exists.\<close>

definition connected_state :: state where
  "connected_state =
     initial_state\<lparr>endpoint := example_endpoint,
                   apiKey := ''secret'',
                   clientRef := Some example_client,
                   audioHandlerRef := True,
                   isConnected := True\<rparr>"

text \<open>The same session with the search client constructed.\<close>

definition searching_state :: state where
  "searching_state =
     connected_state\<lparr>enableSearch := True,
                     searchClientRef :=
                       Some \<lparr>sc_endpoint = ''https://example.search.windows.net'',
                             sc_index = ''docs'', sc_key = ''secret''\<rparr>\<rparr>"

text \<open>The first render with an endpoint typed in, and neither key nor token.\<close>

definition no_credentials_state :: state where
  "no_credentials_state =
     initial_state\<lparr>endpoint := example_endpoint\<rparr>"

section \<open>Running statements\<close>

lemmas stmt_defs = skip_def throw_def try_catch_def try_finally_def emit_def assign_def
  call_def await_def console_log_def console_error_def audioHandler_opt_def
  proactiveManager_opt_def client_opt_def client_req_def setMessages_append_def

lemmas example_defs = test_arguments_def quiet_environment_def failing_close_def
  failing_send_def failing_search_def two_results_def failing_configure_def example_endpoint_def
  initial_state_def connected_state_def
  searching_state_def no_credentials_state_def example_client_def

lemma block_Cons_ok: "fst (f s) = None \<Longrightarrow> block (f # fs) s = block fs (snd (f s))"
  by (cases "f s") auto

lemma block_Cons_throw: "fst (f s) = Some e \<Longrightarrow> block (f # fs) s = (Some e, snd (f s))"
  by (cases "f s") auto

lemma block_single: "block [f] s = f s"
  by (cases "f s"; cases "fst (f s)") simp_all

lemma block_done:
  "(case p of (None, st') \<Rightarrow> block [] st' | (Some e, st') \<Rightarrow> (Some e, st')) = p"
proof (cases p)
  case (Pair r st')
  then show ?thesis by (cases r) simp_all
qed

lemma assign_run: "fst (assign f s) = None" "snd (assign f s) = f s"
  by (simp_all add: assign_def)

lemma appendText_fst: "fst (appendText a t st) = None"
  by (simp add: appendText_def)

text \<open>
  Whatever the last element of the array is, the pushed object \<open>a\<close> itself receives the
  chunk: the updater only copies \<open>a\<close>'s content, into \<open>a\<close> or into another object.
\<close>

lemma appendText_content:
  "content (store (snd (appendText a t st)) a) = content (store st a) @ t"
  by (auto simp: appendText_def setMessages_last_def split: list.splits)

lemma appendText_type:
  "type (store (snd (appendText a t st)) a) = type (store st a)"
  by (auto simp: appendText_def setMessages_last_def split: list.splits)

lemma appendText_frame:
  "trace (snd (appendText a t st)) = trace st"
  "audioHandlerRef (snd (appendText a t st)) = audioHandlerRef st"
  "messages (snd (appendText a t st)) = messages st"
  by (auto simp: appendText_def setMessages_last_def split: list.splits)

lemma audioHandler_opt_run:
  "fst (audioHandler_opt e st) = None"
  "store (snd (audioHandler_opt e st)) = store st"
  "messages (snd (audioHandler_opt e st)) = messages st"
  "audioHandlerRef (snd (audioHandler_opt e st)) = audioHandlerRef st"
  "trace (snd (audioHandler_opt e st)) = trace st @ (if audioHandlerRef st then [e] else [])"
  by (auto simp: audioHandler_opt_def call_def skip_def emit_def)

lemma text_chunks_run:
  "fst (block (map (appendText a) cs) s) = None \<and>
   content (store (snd (block (map (appendText a) cs) s)) a) = content (store s a) @ concat cs \<and>
   type (store (snd (block (map (appendText a) cs) s)) a) = type (store s a) \<and>
   messages (snd (block (map (appendText a) cs) s)) = messages s \<and>
   audioHandlerRef (snd (block (map (appendText a) cs) s)) = audioHandlerRef s \<and>
   trace (snd (block (map (appendText a) cs) s)) = trace s"
proof (induction cs arbitrary: s)
  case Nil
  show ?case by simp
next
  case (Cons c cs)
  have step: "block (map (appendText a) (c # cs)) s
                = block (map (appendText a) cs) (snd (appendText a c s))"
    by (simp add: block_Cons_ok appendText_fst del: block.simps)
  show ?case
    unfolding step using Cons.IH [of "snd (appendText a c s)"]
    by (simp add: appendText_content appendText_type appendText_frame)
qed

lemma audio_events_run:
  "fst (block (map (audioEvent a) evs) s) = None \<and>
   content (store (snd (block (map (audioEvent a) evs) s)) a)
     = content (store s a) @ concat (transcripts evs) \<and>
   type (store (snd (block (map (audioEvent a) evs) s)) a) = type (store s a) \<and>
   messages (snd (block (map (audioEvent a) evs) s)) = messages s \<and>
   audioHandlerRef (snd (block (map (audioEvent a) evs) s)) = audioHandlerRef s \<and>
   trace (snd (block (map (audioEvent a) evs) s))
     = trace s @ (if audioHandlerRef s then map PlayChunk (audios evs) else [])"
proof (induction evs arbitrary: s)
  case Nil
  show ?case by simp
next
  case (Cons ev evs)
  show ?case
  proof (cases ev)
    case (TranscriptChunk t)
    have step: "block (map (audioEvent a) (ev # evs)) s
                  = block (map (audioEvent a) evs) (snd (appendText a t s))"
      by (simp add: TranscriptChunk block_Cons_ok appendText_fst del: block.simps)
    show ?thesis
      unfolding step using Cons.IH [of "snd (appendText a t s)"]
      by (simp add: TranscriptChunk appendText_content appendText_type appendText_frame)
  next
    case (AudioChunk b)
    have step: "block (map (audioEvent a) (ev # evs)) s
                  = block (map (audioEvent a) evs) (snd (audioHandler_opt (PlayChunk b) s))"
      by (simp add: AudioChunk block_Cons_ok audioHandler_opt_run del: block.simps)
    show ?thesis
      unfolding step using Cons.IH [of "snd (audioHandler_opt (PlayChunk b) s)"]
      by (simp add: AudioChunk audioHandler_opt_run)
  qed
qed

lemma contentPart_run:
  "fst (contentPart a p s) = None \<and>
   content (store (snd (contentPart a p s)) a) = content (store s a) @ concat (fragments p) \<and>
   type (store (snd (contentPart a p s)) a) = type (store s a) \<and>
   messages (snd (contentPart a p s)) = messages s \<and>
   audioHandlerRef (snd (contentPart a p s)) = audioHandlerRef s \<and>
   trace (snd (contentPart a p s)) = trace s @ playback_calls (audioHandlerRef s) p"
proof (cases p)
  case (TextPart cs)
  show ?thesis using text_chunks_run [of a cs s] by (simp add: TextPart playback_calls_def)
next
  case (AudioPart evs)
  let ?s1 = "snd (audioHandler_opt StopStreamingPlayback s)"
  let ?s2 = "snd (audioHandler_opt StartStreamingPlayback ?s1)"
  have step: "contentPart a p s = block (map (audioEvent a) evs) ?s2"
    by (simp add: AudioPart block_Cons_ok audioHandler_opt_run del: block.simps)
  show ?thesis
    unfolding step using audio_events_run [of a evs ?s2]
    by (simp add: AudioPart audioHandler_opt_run playback_calls_def)
next
  case OtherPart
  show ?thesis by (simp add: OtherPart skip_def playback_calls_def)
qed

lemma contentParts_run:
  "fst (block (map (contentPart a) ps) s) = None \<and>
   content (store (snd (block (map (contentPart a) ps) s)) a)
     = content (store s a) @ concat (concat (map fragments ps)) \<and>
   type (store (snd (block (map (contentPart a) ps) s)) a) = type (store s a) \<and>
   messages (snd (block (map (contentPart a) ps) s)) = messages s \<and>
   audioHandlerRef (snd (block (map (contentPart a) ps) s)) = audioHandlerRef s \<and>
   trace (snd (block (map (contentPart a) ps) s))
     = trace s @ concat (map (playback_calls (audioHandlerRef s)) ps)"
proof (induction ps arbitrary: s)
  case Nil
  show ?case by simp
next
  case (Cons p ps)
  have step: "block (map (contentPart a) (p # ps)) s
                = block (map (contentPart a) ps) (snd (contentPart a p s))"
    using contentPart_run [of a p s] by (simp add: block_Cons_ok del: block.simps)
  show ?case
    unfolding step using Cons.IH [of "snd (contentPart a p s)"] contentPart_run [of a p s]
    by simp
qed

text \<open>
  A response of one assistant item, a text part followed by an audio part, run on a
  session in progress.
\<close>

lemma handleResponse_example:
  "rendered (snd (handleResponse quiet_environment
       \<lparr>response_items =
          [MessageItem ''assistant''
             [TextPart [''Hel'', ''lo''],
              AudioPart [TranscriptChunk '' wor'', AudioChunk [1, 2], TranscriptChunk ''ld'']]],
        response_status = ''completed'', statusDetails = []\<rparr>
       connected_state))
     = [\<lparr>type = Assistant, content = ''Hello world''\<rparr>] \<and>
   trace (snd (handleResponse quiet_environment
       \<lparr>response_items =
          [MessageItem ''assistant''
             [TextPart [''Hel'', ''lo''],
              AudioPart [TranscriptChunk '' wor'', AudioChunk [1, 2], TranscriptChunk ''ld'']]],
        response_status = ''completed'', statusDetails = []\<rparr>
       connected_state))
     = [AppendMessage \<lparr>type = Assistant, content = []\<rparr>,
        StopStreamingPlayback, StartStreamingPlayback, PlayChunk [1, 2]]"
  by (simp add: handleResponse_def messageItem_def appendText_def setMessages_last_def
        stmt_defs example_defs rendered_def)

section \<open>The response stream\<close>

text \<open>
  C1. For an assistant message item, \<^verbatim>\<open>handleResponse\<close> appends exactly one entry to
  \<^verbatim>\<open>messages\<close>, and once the parts of the item are consumed that entry is an
  assistant Message whose content is the concatenation of the item's text fragments
  (text chunks and transcript chunks) in arrival order. The state \<open>st\<close> is arbitrary, so
  this holds for an item at any position of a response.
\<close>

theorem assistant_item_one_message:
  "fst (responseItem w c (MessageItem ''assistant'' parts) st) = None \<and>
   messages (snd (responseItem w c (MessageItem ''assistant'' parts) st))
     = messages st @ [next_ref st] \<and>
   store (snd (responseItem w c (MessageItem ''assistant'' parts) st)) (next_ref st)
     = \<lparr>type = Assistant, content = concat (concat (map fragments parts))\<rparr>"
proof -
  let ?s0 = "setMessages_append \<lparr>type = Assistant, content = []\<rparr> st"
  have run: "responseItem w c (MessageItem ''assistant'' parts) st
               = block (map (contentPart (next_ref st)) parts) ?s0"
    by (simp add: messageItem_def)
  have s0: "store ?s0 (next_ref st) = \<lparr>type = Assistant, content = []\<rparr>"
           "messages ?s0 = messages st @ [next_ref st]"
    by (simp_all add: setMessages_append_def)
  show ?thesis
    unfolding run using contentParts_run [of "next_ref st" parts ?s0] s0
    by (simp add: Message.equality)
qed

text \<open>
  C2. An audio part is left only when both of its tasks are done: in the state from
  which the next part starts, every transcript chunk of the part has been added to the
  message and every audio chunk has been handed to \<^verbatim>\<open>playChunk\<close> (after one stop and
  one start of the playback), whatever the order in which the chunks of the two streams
  arrived.
\<close>

theorem audio_part_drained:
  "fst (contentPart a (AudioPart arrivals) st) = None \<and>
   content (store (snd (contentPart a (AudioPart arrivals) st)) a)
     = content (store st a) @ concat (transcripts arrivals) \<and>
   trace (snd (contentPart a (AudioPart arrivals) st))
     = trace st @ (if audioHandlerRef st
                   then StopStreamingPlayback # StartStreamingPlayback
                          # map PlayChunk (audios arrivals)
                   else []) \<and>
   block (map (contentPart a) (AudioPart arrivals # rest)) st
     = block (map (contentPart a) rest) (snd (contentPart a (AudioPart arrivals) st))"
  using contentPart_run [of a "AudioPart arrivals" st]
  by (simp add: block_Cons_ok playback_calls_def del: contentPart.simps block.simps)

text \<open>
  C10. For an \<^verbatim>\<open>input_audio\<close> event the loop stops the playback (on the audio
  handler, when there is one) before it awaits the item's completion, and appends the
  one user Message only after the completion: when \<^verbatim>\<open>waitForCompletion\<close> rejects,
  nothing is appended.
\<close>

theorem input_audio_order:
  "fst (serverEvent w (InputAudioEvent item) st) = completion item \<and>
   trace (snd (serverEvent w (InputAudioEvent item) st)) =
     trace st
     @ (if proactiveManagerRef st then [UpdateActivity ''user start to speak''] else [])
     @ (if audioHandlerRef st then [StopStreamingPlayback] else [])
     @ [WaitForCompletion]
     @ (if completion item = None
        then [AppendMessage \<lparr>type = User,
                content = (case transcription item of None \<Rightarrow> [] | Some t \<Rightarrow> t)\<rparr>]
        else []) \<and>
   messages (snd (serverEvent w (InputAudioEvent item) st)) =
     messages st @ (if completion item = None then [next_ref st] else [])"
  by (cases "completion item") (simp_all add: handleInputAudio_def stmt_defs)

section \<open>Tool calls\<close>

lemma toLocaleString_not_empty: "toLocaleString d \<noteq> []"
  by (simp add: toLocaleString_def)

text \<open>
  C3. For a \<^verbatim>\<open>get_time\<close> item the calls made are, in this order: the wait for the
  item's completion and, when the item completed, with the client reference set, one
  \<^verbatim>\<open>sendItem\<close> of a \<^verbatim>\<open>function_call_output\<close> that carries the item's call id and
  the locale-formatted timestamp, which is not empty, and then, when that send resolved,
  one \<^verbatim>\<open>generateResponse\<close>; with the client reference null, none.
\<close>

theorem get_time_round_trip:
  "toLocaleString (now w) \<noteq> [] \<and>
   trace (snd (responseItem w c (FunctionCallItem ''get_time'' arguments callId completed) st)) =
     trace st
     @ [WaitForCompletion]
     @ (if completed = None
        then [ConsoleLog ''Function call output:'' ''get_time'',
              ConsoleLog ''Current time:'' (toLocaleString (now w))]
             @ (if clientRef st = None then []
                else SendItem (FunctionCallOutput (toLocaleString (now w)) callId)
                     # (if sendItem_outcome w
                             (FunctionCallOutput (toLocaleString (now w)) callId) = None
                        then [GenerateResponse None] else []))
        else [])"
  by (cases completed;
      cases "sendItem_outcome w (FunctionCallOutput (toLocaleString (now w)) callId)";
      cases "generateResponse_outcome w None")
     (simp_all add: functionCallItem_def get_time_call_def stmt_defs toLocaleString_not_empty)

text \<open>
  The claim as written, for every \<^verbatim>\<open>get_time\<close> item, fails in two places: after a
  disconnect the item is answered by no call at all, and when the send rejects no
  \<^verbatim>\<open>generateResponse\<close> follows it.
\<close>

theorem get_time_not_sent_counterexample:
  "trace (snd (responseItem quiet_environment connected_state
       (FunctionCallItem ''get_time'' [] ''call_1'' None)
       (snd (disconnect quiet_environment connected_state)))) =
     [Close, StopStreamingPlayback, StopRecordAnimation, StopPlayChunkAnimation,
      StopSessionRecording,
      WaitForCompletion,
      ConsoleLog ''Function call output:'' ''get_time'',
      ConsoleLog ''Current time:'' ''Tuesday, November 3, 2026 at 10:28:00 AM UTC''] \<and>
   responseItem failing_send connected_state
       (FunctionCallItem ''get_time'' [] ''call_1'' None) connected_state =
     (Some ''Error: not connected'',
      connected_state\<lparr>trace :=
        [WaitForCompletion,
         ConsoleLog ''Function call output:'' ''get_time'',
         ConsoleLog ''Current time:'' ''Tuesday, November 3, 2026 at 10:28:00 AM UTC'',
         SendItem (FunctionCallOutput ''Tuesday, November 3, 2026 at 10:28:00 AM UTC''
                     ''call_1'')]\<rparr>)"
  by (simp add: functionCallItem_def get_time_call_def disconnect_def disconnect_settle_def
        disconnect_suspend_def toLocaleString_def two_digit_def stmt_defs example_defs)

lemma foldl_append_concat:
  "foldl (\<lambda>acc d. acc @ g d) a ds = a @ concat (map g ds)"
  by (induction ds arbitrary: a) simp_all

lemma resultText_concat:
  "resultText idf cf results = concat (map (result_block idf cf) results)"
  unfolding resultText_def
  using foldl_append_concat [of "result_block idf cf" "[]" results]
  by (simp add: result_block_def)

lemma starts_with_boundary:
  assumes "c \<noteq> CHR ''-''"
  shows "starts_with ''-----'' (u @ c # t) = starts_with ''-----'' u"
proof -
  have len: "length ''-----'' = 5" by simp
  show ?thesis
  proof (cases "5 \<le> length u")
    case True
    then show ?thesis unfolding starts_with_def len by simp
  next
    case False
    then have short: "length (take 5 u) < 5" by simp
    have "take 5 (u @ c # t) \<noteq> ''-----''"
    proof
      assume eq: "take 5 (u @ c # t) = ''-----''"
      from False have "take 5 (u @ c # t) = u @ take (5 - length u) (c # t)" by simp
      moreover from False have "c \<in> set (take (5 - length u) (c # t))"
        by (cases "5 - length u") auto
      ultimately have "c \<in> set (take 5 (u @ c # t))" by simp
      with eq have "c \<in> set ''-----''" by simp
      with assms show False by simp
    qed
    moreover from short have "take 5 u \<noteq> ''-----''" by auto
    ultimately show ?thesis unfolding starts_with_def len by simp
  qed
qed

text \<open>A character that is no dash keeps the runs of dashes on its two sides apart.\<close>

lemma occurrences_boundary:
  "c \<noteq> CHR ''-'' \<Longrightarrow>
   occurrences ''-----'' (s @ c # t) = occurrences ''-----'' s + occurrences ''-----'' t"
proof (induction s)
  case Nil
  then show ?case by (auto simp: starts_with_def)
next
  case (Cons a s)
  have "starts_with ''-----'' (a # s @ c # t) = starts_with ''-----'' (a # s)"
    using starts_with_boundary [OF Cons.prems, of "a # s" t] by simp
  with Cons show ?case by simp
qed

lemma occurrences_block:
  "occurrences ''-----'' (result_block idf cf d @ t) =
     Suc (occurrences ''-----'' (field_text d idf) + occurrences ''-----'' (field_text d cf)
          + occurrences ''-----'' t)"
proof -
  let ?i = "field_text d idf" and ?c = "field_text d cf"
  have shape: "result_block idf cf d @ t =
      CHR ''['' # (?i @ CHR '']'' # CHR '':'' # CHR '' '' #
        (?c @ CHR 0x0A # (''-----'' @ CHR 0x0A # t)))"
    by (simp add: result_block_def separator_def)
  have last: "occurrences ''-----'' (''-----'' @ CHR 0x0A # t) = Suc (occurrences ''-----'' t)"
    by (simp add: starts_with_def)
  have content: "occurrences ''-----'' (?c @ CHR 0x0A # (''-----'' @ CHR 0x0A # t))
                   = occurrences ''-----'' ?c + Suc (occurrences ''-----'' t)"
    using occurrences_boundary [of "CHR 0x0A" ?c "''-----'' @ CHR 0x0A # t"] last by simp
  have mid: "occurrences ''-----'' (CHR '':'' # CHR '' '' #
                (?c @ CHR 0x0A # (''-----'' @ CHR 0x0A # t)))
               = occurrences ''-----'' ?c + Suc (occurrences ''-----'' t)"
    using content by (simp add: starts_with_def)
  have ident: "occurrences ''-----'' (?i @ CHR '']'' # CHR '':'' # CHR '' '' #
                 (?c @ CHR 0x0A # (''-----'' @ CHR 0x0A # t)))
               = occurrences ''-----'' ?i + (occurrences ''-----'' ?c + Suc (occurrences ''-----'' t))"
    using occurrences_boundary [of "CHR '']''" ?i
            "CHR '':'' # CHR '' '' # (?c @ CHR 0x0A # (''-----'' @ CHR 0x0A # t))"] mid
    by simp
  show ?thesis
    unfolding shape using ident by (simp add: starts_with_def)
qed

lemma occurrences_blocks:
  "occurrences ''-----'' (concat (map (result_block idf cf) results)) =
     length results
     + sum_list (map (\<lambda>d. occurrences ''-----'' (field_text d idf)
                          + occurrences ''-----'' (field_text d cf)) results)"
  by (induction results) (simp_all add: occurrences_block)

text \<open>
  C6. For a completed \<^verbatim>\<open>search\<close> item whose arguments parse and whose search
  resolves: with the search client constructed, the output is the concatenation, in the
  order of the results, of one block \<^verbatim>\<open>[<identifier>]: <content>\n-----\n\<close> per
  result; it is logged, and sent as the \<^verbatim>\<open>function_call_output\<close> of the call when
  the client reference is set. It is empty for no result. \<^verbatim>\<open>-----\<close> occurs in it
  once per result and once more for each place at which it occurs inside an identifier
  or a content: as often as there are results exactly when no identifier and no content
  contains \<^verbatim>\<open>-----\<close>. With no search client there is no error, and no output either:
  nothing is sent.
\<close>

theorem search_output:
  assumes "JSON_parse_query w arguments = Inr query" and "search_outcome w query = Inr results"
  shows
    "(let out = concat (map (result_block (searchIdentifierField c) (searchContentField c))
                          results)
      in trace (snd (responseItem w c (FunctionCallItem ''search'' arguments callId None) st)) =
           trace st
           @ [WaitForCompletion,
              ConsoleLog ''Function call output:'' ''search'',
              ConsoleLog ''Search query:'' query]
           @ (if searchClientRef st = None then []
              else [AppendMessage \<lparr>type = Status,
                                    content = ''Searching ['' @ query @ '']...''\<rparr>,
                    Search query 5 [searchContentField c, searchIdentifierField c],
                    ConsoleLog ''Search results:'' out]
                   @ (if clientRef st = None then []
                      else SendItem (FunctionCallOutput out callId)
                           # (if sendItem_outcome w (FunctionCallOutput out callId) = None
                              then [GenerateResponse None] else []))) \<and>
         (searchClientRef st = None \<longrightarrow>
            fst (responseItem w c (FunctionCallItem ''search'' arguments callId None) st)
              = None) \<and>
         occurrences ''-----'' out =
           length results
           + sum_list (map (\<lambda>d. occurrences ''-----'' (field_text d (searchIdentifierField c))
                                + occurrences ''-----'' (field_text d (searchContentField c)))
                         results) \<and>
         (occurrences ''-----'' out = length results) =
           (\<forall>d \<in> set results.
              occurrences ''-----'' (field_text d (searchIdentifierField c)) = 0 \<and>
              occurrences ''-----'' (field_text d (searchContentField c)) = 0)) \<and>
     concat (map (result_block (searchIdentifierField c) (searchContentField c)) []) = []"
proof -
  let ?out = "concat (map (result_block (searchIdentifierField c) (searchContentField c)) results)"
  have rt: "resultText (searchIdentifierField c) (searchContentField c) results = ?out"
    by (rule resultText_concat)
  have tr: "trace (snd (responseItem w c (FunctionCallItem ''search'' arguments callId None) st)) =
           trace st
           @ [WaitForCompletion,
              ConsoleLog ''Function call output:'' ''search'',
              ConsoleLog ''Search query:'' query]
           @ (if searchClientRef st = None then []
              else [AppendMessage \<lparr>type = Status,
                                    content = ''Searching ['' @ query @ '']...''\<rparr>,
                    Search query 5 [searchContentField c, searchIdentifierField c],
                    ConsoleLog ''Search results:'' ?out]
                   @ (if clientRef st = None then []
                      else SendItem (FunctionCallOutput ?out callId)
                           # (if sendItem_outcome w (FunctionCallOutput ?out callId) = None
                              then [GenerateResponse None] else [])))"
    using assms
    by (cases "sendItem_outcome w (FunctionCallOutput ?out callId)";
        cases "generateResponse_outcome w None")
       (simp_all add: functionCallItem_def search_call_def rt stmt_defs)
  have ok: "searchClientRef st = None \<longrightarrow>
            fst (responseItem w c (FunctionCallItem ''search'' arguments callId None) st) = None"
    using assms by (simp add: functionCallItem_def search_call_def stmt_defs)
  note count = occurrences_blocks [of "searchIdentifierField c" "searchContentField c" results]
  have exact: "(occurrences ''-----'' ?out = length results) =
           (\<forall>d \<in> set results.
              occurrences ''-----'' (field_text d (searchIdentifierField c)) = 0 \<and>
              occurrences ''-----'' (field_text d (searchContentField c)) = 0)"
    unfolding count by (induction results) auto
  show ?thesis
    using tr ok count exact by (simp add: Let_def)
qed

theorem search_output_witness:
  "trace (snd (responseItem two_results searching_state
            (FunctionCallItem ''search'' test_arguments ''call_1'' None) searching_state)) =
     [WaitForCompletion,
      ConsoleLog ''Function call output:'' ''search'',
      ConsoleLog ''Search query:'' ''test'',
      AppendMessage \<lparr>type = Status, content = ''Searching [test]...''\<rparr>,
      Search ''test'' 5 [''chunk'', ''chunk_id''],
      ConsoleLog ''Search results:''
        (''[doc1]: Paris'' @ separator @ ''[doc2]: Rome'' @ separator),
      SendItem (FunctionCallOutput
        (''[doc1]: Paris'' @ separator @ ''[doc2]: Rome'' @ separator) ''call_1''),
      GenerateResponse None] \<and>
   occurrences ''-----'' (''[doc1]: Paris'' @ separator @ ''[doc2]: Rome'' @ separator) = 2"
  using search_output [of two_results test_arguments "''test''"
          "[[(''chunk_id'', ''doc1''), (''chunk'', ''Paris'')],
            [(''chunk_id'', ''doc2''), (''chunk'', ''Rome'')]]"
          searching_state "''call_1''" searching_state]
  by (simp add: example_defs result_block_def field_text_def starts_with_def separator_def
        Let_def)

text \<open>
  Without a search client the item is answered by no \<^verbatim>\<open>sendItem\<close>, so no empty
  output reaches the service; and one result whose content holds a run of dashes gives
  two occurrences of \<^verbatim>\<open>-----\<close>.
\<close>

theorem search_unconfigured_counterexample:
  "responseItem quiet_environment connected_state
     (FunctionCallItem ''search'' test_arguments ''call_1'' None) connected_state =
   (None, connected_state\<lparr>trace :=
      [WaitForCompletion,
       ConsoleLog ''Function call output:'' ''search'',
       ConsoleLog ''Search query:'' ''test'']\<rparr>) \<and>
   occurrences ''-----''
     (resultText ''chunk_id'' ''chunk'' [[(''chunk_id'', ''doc1''), (''chunk'', ''a-----b'')]])
     = 2"
  by (simp add: functionCallItem_def search_call_def stmt_defs example_defs
        resultText_def field_text_def separator_def starts_with_def)

text \<open>
  C9. A completed function call whose name is neither \<^verbatim>\<open>get_time\<close> nor
  \<^verbatim>\<open>search\<close> is passed over: nothing is sent and nothing is thrown. A failure inside
  the search branch (arguments that do not parse, a search that rejects) is thrown out
  of \<^verbatim>\<open>handleResponse\<close>, and no \<^verbatim>\<open>function_call_output\<close> is sent for the call.
\<close>

theorem unhandled_function_call:
  "(functionName \<noteq> ''get_time'' \<and> functionName \<noteq> ''search'' \<longrightarrow>
      responseItem w c (FunctionCallItem functionName arguments callId None) st =
        (None, st\<lparr>trace := trace st
                  @ [WaitForCompletion,
                     ConsoleLog ''Function call output:'' functionName]\<rparr>)) \<and>
   (JSON_parse_query w arguments1 = Inl e1 \<longrightarrow>
      responseItem w c (FunctionCallItem ''search'' arguments1 callId None) st =
        (Some e1, st\<lparr>trace := trace st
                     @ [WaitForCompletion,
                        ConsoleLog ''Function call output:'' ''search'']\<rparr>)) \<and>
   (JSON_parse_query w arguments2 = Inr query \<and> search_outcome w query = Inl e2 \<and>
    searchClientRef st \<noteq> None \<longrightarrow>
      fst (responseItem w c (FunctionCallItem ''search'' arguments2 callId None) st) = Some e2 \<and>
      filter is_client_call
        (trace (snd (responseItem w c (FunctionCallItem ''search'' arguments2 callId None) st)))
        = filter is_client_call (trace st))"
  by (auto simp: functionCallItem_def search_call_def stmt_defs is_client_call_def)

theorem unhandled_function_call_witness:
  "responseItem failing_search searching_state
     (FunctionCallItem ''get_weather'' ''{}'' ''call_7'' None) searching_state =
     (None, searching_state\<lparr>trace :=
        [WaitForCompletion, ConsoleLog ''Function call output:'' ''get_weather'']\<rparr>) \<and>
   responseItem failing_search searching_state
     (FunctionCallItem ''search'' ''{'' ''call_7'' None) searching_state =
     (Some ''SyntaxError: Unexpected end of JSON input'',
      searching_state\<lparr>trace :=
        [WaitForCompletion, ConsoleLog ''Function call output:'' ''search'']\<rparr>) \<and>
   fst (responseItem failing_search searching_state
     (FunctionCallItem ''search'' test_arguments ''call_7'' None) searching_state)
     = Some ''RestError: service unavailable'' \<and>
   filter is_client_call (trace (snd (responseItem failing_search searching_state
     (FunctionCallItem ''search'' test_arguments ''call_7'' None) searching_state))) = []"
  using unhandled_function_call [of "''get_weather''" failing_search searching_state "''{}''"
          "''call_7''" searching_state "''{''" "''SyntaxError: Unexpected end of JSON input''"
          test_arguments "''test''" "''RestError: service unavailable''"]
  by (simp add: example_defs)

text \<open>
  In a session in progress, a call of \<^verbatim>\<open>get_weather\<close> (a tool the file declares)
  gets no \<^verbatim>\<open>function_call_output\<close> and raises no error.
\<close>

theorem unregistered_tool_counterexample:
  "responseItem quiet_environment connected_state
     (FunctionCallItem ''get_weather'' ''{}'' ''call_7'' None) connected_state =
   (None, connected_state\<lparr>trace :=
      [WaitForCompletion, ConsoleLog ''Function call output:'' ''get_weather'']\<rparr>)"
  by (simp add: functionCallItem_def stmt_defs example_defs)

section \<open>Sending text\<close>

text \<open>
  C5. With a non-blank input and the client reference set, \<^verbatim>\<open>sendMessage\<close> appends
  the user Message before it calls \<^verbatim>\<open>sendItem\<close>. When a call rejects, the error is
  written to the console; the user Message stays and it is the only Message appended.
\<close>

theorem sendMessage_order:
  assumes "trim (currentMessage st) \<noteq> []" and "clientRef st \<noteq> None"
  shows "fst (sendMessage w st) = None \<and>
         messages (snd (sendMessage w st)) = messages st @ [next_ref st] \<and>
         store (snd (sendMessage w st)) (next_ref st)
           = \<lparr>type = User, content = currentMessage st\<rparr> \<and>
         trace (snd (sendMessage w st)) =
           trace st
           @ [AppendMessage \<lparr>type = User, content = currentMessage st\<rparr>,
              SendItem (InputTextMessage ''user'' (currentMessage st))]
           @ (case sendItem_outcome w (InputTextMessage ''user'' (currentMessage st)) of
                Some e \<Rightarrow> [ConsoleError ''Failed to send message:'' e]
              | None \<Rightarrow>
                  GenerateResponse None
                  # (case generateResponse_outcome w None of
                       Some e \<Rightarrow> [ConsoleError ''Failed to send message:'' e]
                     | None \<Rightarrow> []))"
  using assms
  by (cases "sendItem_outcome w (InputTextMessage ''user'' (currentMessage st))";
      cases "generateResponse_outcome w None")
     (simp_all add: sendMessage_def stmt_defs)

theorem sendMessage_order_witness:
  "rendered (snd (sendMessage quiet_environment (connected_state\<lparr>currentMessage := ''hello''\<rparr>)))
     = [\<lparr>type = User, content = ''hello''\<rparr>] \<and>
   trace (snd (sendMessage quiet_environment (connected_state\<lparr>currentMessage := ''hello''\<rparr>)))
     = [AppendMessage \<lparr>type = User, content = ''hello''\<rparr>,
        SendItem (InputTextMessage ''user'' ''hello''),
        GenerateResponse None]"
  using sendMessage_order [of "connected_state\<lparr>currentMessage := ''hello''\<rparr>" quiet_environment]
  by (simp add: example_defs rendered_def trim_def strip.simps whitespace_def)

text \<open>
  An input of one no-break space (U+00A0) is blank: \<^verbatim>\<open>sendMessage\<close> does nothing.
\<close>

lemma sendMessage_blank_example:
  "trim [CHR 0xC2, CHR 0xA0] = [] \<and>
   sendMessage quiet_environment (connected_state\<lparr>currentMessage := [CHR 0xC2, CHR 0xA0]\<rparr>)
     = (None, connected_state\<lparr>currentMessage := [CHR 0xC2, CHR 0xA0]\<rparr>)"
  by (simp add: sendMessage_def skip_def trim_def strip.simps whitespace_def)

text \<open>A send that rejects leaves the user Message alone in the log: no error Message.\<close>

theorem sendMessage_failed_send_counterexample:
  "rendered (snd (sendMessage failing_send (connected_state\<lparr>currentMessage := ''hello''\<rparr>)))
     = [\<lparr>type = User, content = ''hello''\<rparr>] \<and>
   trace (snd (sendMessage failing_send (connected_state\<lparr>currentMessage := ''hello''\<rparr>)))
     = [AppendMessage \<lparr>type = User, content = ''hello''\<rparr>,
        SendItem (InputTextMessage ''user'' ''hello''),
        ConsoleError ''Failed to send message:'' ''Error: not connected'']"
  by (simp add: sendMessage_def stmt_defs example_defs rendered_def trim_def strip.simps
        whitespace_def)

section \<open>Disconnecting\<close>

text \<open>
  C7. \<^verbatim>\<open>disconnect\<close> never throws, in whatever state it resumes after
  \<^verbatim>\<open>close\<close>, and when \<^verbatim>\<open>close\<close> resolved it leaves the client reference
  cleared and the connected flag false. With no client it does nothing. For a call that
  is awaited and whose \<^verbatim>\<open>close\<close> resolves, the recording flag is false as well and
  each teardown call is made once; a second \<^verbatim>\<open>disconnect\<close> made after the first
  has finished changes nothing and calls nothing. When \<^verbatim>\<open>close\<close> rejects, the
  error is written to the console and swallowed.
\<close>

theorem disconnect_twice:
  "fst (disconnect_settle w c s) = None \<and>
   (close_outcome w = None \<longrightarrow>
      clientRef (snd (disconnect_settle w c s)) = None \<and>
      isConnected (snd (disconnect_settle w c s)) = False) \<and>
   fst (disconnect w st) = None \<and>
   fst (disconnect_overlapping w st) = None \<and>
   (clientRef st = None \<longrightarrow> snd (disconnect w st) = st) \<and>
   (clientRef st \<noteq> None \<and> close_outcome w = None \<longrightarrow>
      clientRef (snd (disconnect w st)) = None \<and>
      isConnected (snd (disconnect w st)) = False \<and>
      isRecording (snd (disconnect w st)) = False \<and>
      trace (snd (disconnect w st)) =
        trace st @ [Close]
        @ (if audioHandlerRef st then [StopStreamingPlayback] else [])
        @ (if proactiveManagerRef st then [ProactiveStop] else [])
        @ (if audioHandlerRef st then [StopRecordAnimation, StopPlayChunkAnimation] else [])
        @ (if isRecording st \<and> audioHandlerRef st then [StopRecording] else [])
        @ (if audioHandlerRef st then [StopSessionRecording] else []) \<and>
      disconnect w (snd (disconnect w st)) = (None, snd (disconnect w st))) \<and>
   (clientRef st \<noteq> None \<and> close_outcome w = Some e \<longrightarrow>
      ConsoleError ''Disconnect failed:'' e \<in> set (trace (snd (disconnect w st))))"
proof -
  have settle: "fst (disconnect_settle w c' s') = None" for c' s'
    by (cases "close_outcome w")
       (simp_all add: disconnect_settle_def stmt_defs)
  have resumed: "close_outcome w = None \<longrightarrow>
      clientRef (snd (disconnect_settle w c s)) = None \<and>
      isConnected (snd (disconnect_settle w c s)) = False"
    by (simp add: disconnect_settle_def stmt_defs)
  have overlap: "fst (disconnect_overlapping w st) = None"
    using settle [of st "disconnect_suspend (disconnect_suspend st)"]
          settle [of "disconnect_suspend st"
                    "snd (disconnect_settle w st (disconnect_suspend (disconnect_suspend st)))"]
          settle [of st "disconnect_suspend st"]
    by (simp add: disconnect_overlapping_def block_Cons_ok block_single skip_def
          del: block.simps)
  have rest: "fst (disconnect w st) = None \<and>
   (clientRef st = None \<longrightarrow> snd (disconnect w st) = st) \<and>
   (clientRef st \<noteq> None \<and> close_outcome w = None \<longrightarrow>
      clientRef (snd (disconnect w st)) = None \<and>
      isConnected (snd (disconnect w st)) = False \<and>
      isRecording (snd (disconnect w st)) = False \<and>
      trace (snd (disconnect w st)) =
        trace st @ [Close]
        @ (if audioHandlerRef st then [StopStreamingPlayback] else [])
        @ (if proactiveManagerRef st then [ProactiveStop] else [])
        @ (if audioHandlerRef st then [StopRecordAnimation, StopPlayChunkAnimation] else [])
        @ (if isRecording st \<and> audioHandlerRef st then [StopRecording] else [])
        @ (if audioHandlerRef st then [StopSessionRecording] else []) \<and>
      disconnect w (snd (disconnect w st)) = (None, snd (disconnect w st))) \<and>
   (clientRef st \<noteq> None \<and> close_outcome w = Some e \<longrightarrow>
      ConsoleError ''Disconnect failed:'' e \<in> set (trace (snd (disconnect w st))))"
    by (cases "close_outcome w")
       (auto simp: disconnect_def disconnect_settle_def disconnect_suspend_def stmt_defs)
  show ?thesis using settle [of c s] resumed overlap rest by simp
qed

theorem disconnect_twice_witness:
  "clientRef (snd (disconnect quiet_environment connected_state)) = None \<and>
   isConnected (snd (disconnect quiet_environment connected_state)) = False \<and>
   trace (snd (disconnect quiet_environment connected_state)) =
     [Close, StopStreamingPlayback, StopRecordAnimation, StopPlayChunkAnimation,
      StopSessionRecording] \<and>
   disconnect quiet_environment (snd (disconnect quiet_environment connected_state))
     = (None, snd (disconnect quiet_environment connected_state)) \<and>
   ConsoleError ''Disconnect failed:'' ''Error: socket hang up''
     \<in> set (trace (snd (disconnect failing_close connected_state)))"
  using disconnect_twice [of quiet_environment connected_state connected_state connected_state]
        disconnect_twice [of failing_close connected_state connected_state connected_state
          "''Error: socket hang up''"]
  by (simp add: example_defs)

text \<open>
  When \<^verbatim>\<open>close\<close> rejects, the session is still marked connected and still holds its
  client, and a second \<^verbatim>\<open>disconnect\<close> calls \<^verbatim>\<open>close\<close> again. And when
  \<^verbatim>\<open>close\<close> resolves, a second call entered before the first has resumed repeats
  \<^verbatim>\<open>close\<close> and the teardown.
\<close>

theorem disconnect_failed_close_counterexample:
  "isConnected (snd (disconnect failing_close connected_state)) = True \<and>
   clientRef (snd (disconnect failing_close connected_state)) = Some example_client \<and>
   trace (snd (disconnect failing_close (snd (disconnect failing_close connected_state)))) =
     [Close, ConsoleError ''Disconnect failed:'' ''Error: socket hang up'',
      Close, ConsoleError ''Disconnect failed:'' ''Error: socket hang up''] \<and>
   trace (snd (disconnect_overlapping quiet_environment connected_state)) =
     [Close, Close,
      StopStreamingPlayback, StopRecordAnimation, StopPlayChunkAnimation, StopSessionRecording,
      StopStreamingPlayback, StopRecordAnimation, StopPlayChunkAnimation, StopSessionRecording]"
  by (simp add: disconnect_def disconnect_overlapping_def disconnect_settle_def
        disconnect_suspend_def stmt_defs example_defs)

section \<open>Connecting\<close>

lemma refresh_config_run:
  "fst (refresh_config w s) = None \<and>
   messages (snd (refresh_config w s)) = messages s \<and>
   store (snd (refresh_config w s)) = store s \<and>
   next_ref (snd (refresh_config w s)) = next_ref s \<and>
   clientRef (snd (refresh_config w s)) = clientRef s \<and>
   isConnected (snd (refresh_config w s)) = isConnected s \<and>
   filter is_client_call (trace (snd (refresh_config w s))) = filter is_client_call (trace s)"
  by (cases "fetch_config w")
     (simp_all add: refresh_config_def stmt_defs is_client_call_def split: option.splits)

lemma refresh_opt_run:
  "fst ((if b then refresh_config w else skip) s) = None \<and>
   messages (snd ((if b then refresh_config w else skip) s)) = messages s \<and>
   store (snd ((if b then refresh_config w else skip) s)) = store s \<and>
   next_ref (snd ((if b then refresh_config w else skip) s)) = next_ref s \<and>
   clientRef (snd ((if b then refresh_config w else skip) s)) = clientRef s \<and>
   isConnected (snd ((if b then refresh_config w else skip) s)) = isConnected s \<and>
   filter is_client_call (trace (snd ((if b then refresh_config w else skip) s)))
     = filter is_client_call (trace s)"
  using refresh_config_run [of w s] by (simp add: skip_def)

text \<open>
  C4. Called while not connected, in agent mode and with no agent id,
  \<^verbatim>\<open>handleConnect\<close> appends exactly one Message, the error
  ``Please input/select an agent.'', constructs no client and makes no call on one, and
  leaves the connected flag false.
\<close>

theorem agent_without_id:
  assumes "\<not> isConnected st" and "mode st = agent_mode" and "agentId st = []"
  shows "fst (handleConnect w st) = None \<and>
         messages (snd (handleConnect w st)) = messages st @ [next_ref st] \<and>
         store (snd (handleConnect w st)) (next_ref st)
           = \<lparr>type = Error, content = ''Please input/select an agent.''\<rparr> \<and>
         clientRef (snd (handleConnect w st)) = clientRef st \<and>
         filter is_client_call (trace (snd (handleConnect w st)))
           = filter is_client_call (trace st) \<and>
         isConnected (snd (handleConnect w st)) = False \<and>
         isConnecting (snd (handleConnect w st)) = False"
proof -
  let ?m = "\<lparr>type = Error, content = ''Please input/select an agent.''\<rparr>"
  let ?s1 = "st\<lparr>isConnecting := True\<rparr>"
  let ?s2 = "snd ((if configLoaded st then refresh_config w else skip) ?s1)"
  note r = refresh_opt_run [of "configLoaded st" w ?s1]
  have body: "connect_body w st st = (None, setMessages_append ?m ?s2)"
    using assms r
    by (simp add: connect_body_def block_Cons_ok assign_run del: block.simps(2))
  have run: "handleConnect w st = (None, (setMessages_append ?m ?s2)\<lparr>isConnecting := False\<rparr>)"
    using assms by (simp add: handleConnect_def try_finally_def try_catch_def body assign_def)
  show ?thesis
    unfolding run using assms r
    by (simp add: setMessages_append_def is_client_call_def)
qed

theorem agent_without_id_witness:
  "rendered (snd (handleConnect quiet_environment (initial_state\<lparr>mode := agent_mode\<rparr>)))
     = [\<lparr>type = Error, content = ''Please input/select an agent.''\<rparr>] \<and>
   clientRef (snd (handleConnect quiet_environment (initial_state\<lparr>mode := agent_mode\<rparr>)))
     = None \<and>
   isConnected (snd (handleConnect quiet_environment (initial_state\<lparr>mode := agent_mode\<rparr>)))
     = False"
  using agent_without_id [of "initial_state\<lparr>mode := agent_mode\<rparr>" quiet_environment]
  by (simp add: example_defs rendered_def)

lemma after_configure_run:
  assumes "(case session_avatar sess of None \<Rightarrow> None
            | Some ice_servers \<Rightarrow> getLocalDescription_outcome w ice_servers) = None"
  shows "fst (after_configure w st sess s) = None \<and>
         clientRef (snd (after_configure w st sess s)) = clientRef s \<and>
         isConnected (snd (after_configure w st sess s)) = True"
  using assms
  by (cases "session_avatar sess") (simp_all add: after_configure_def stmt_defs)

lemma after_configure_thrown:
  assumes "(case session_avatar sess of None \<Rightarrow> None
            | Some ice_servers \<Rightarrow> getLocalDescription_outcome w ice_servers) = Some e"
  shows "fst (after_configure w st sess s) = Some e \<and>
         messages (snd (after_configure w st sess s)) = messages s \<and>
         next_ref (snd (after_configure w st sess s)) = next_ref s \<and>
         isConnected (snd (after_configure w st sess s)) = isConnected s"
  using assms
  by (cases "session_avatar sess") (simp_all add: after_configure_def stmt_defs)

lemma after_configure_mem:
  "e \<in> set (trace s) \<Longrightarrow> e \<in> set (trace (snd (after_configure w st sess s)))"
proof (cases "session_avatar sess")
  case None
  then show "e \<in> set (trace s) \<Longrightarrow> ?thesis"
    by (simp add: after_configure_def stmt_defs)
next
  case (Some ice_servers)
  then show "e \<in> set (trace s) \<Longrightarrow> ?thesis"
    by (cases "getLocalDescription_outcome w ice_servers")
       (simp_all add: after_configure_def stmt_defs)
qed

text \<open>
  The state in which \<open>open_session\<close> reaches \<open>after_configure\<close>, when the calls before
  it return.
\<close>

lemma open_session_configured:
  assumes "new_URL_outcome w (endpoint st) = None"
    and "new_RTClient_outcome w (new_client st) = None"
    and "enableSearch st \<longrightarrow> new_SearchClient_outcome w (search_client st) = None"
    and "configure_outcome w (session_request w st) = Inr sess"
  shows "\<exists>s'. open_session w st s = after_configure w st sess s' \<and>
              clientRef s' = Some (new_client st) \<and>
              messages s' = messages s \<and> next_ref s' = next_ref s \<and>
              isConnected s' = isConnected s \<and>
              NewRTClient (new_client st) \<in> set (trace s') \<and>
              Configure (session_request w st) \<in> set (trace s')"
proof (cases "enableSearch st")
  case True
  let ?s' = "s\<lparr>clientRef := Some (new_client st),
               turnDetectionType := turnDetection st,
               searchClientRef := Some (search_client st),
               trace := trace s @ [NewURL (endpoint st), NewRTClient (new_client st),
                         ConsoleLog ''Client created:'' ''connectAvatar'',
                         NewSearchClient (search_client st),
                         Configure (session_request w st)]\<rparr>"
  have "open_session w st s = after_configure w st sess ?s'"
    using assms True
    by (simp add: open_session_def stmt_defs block_done)
  then show ?thesis by (intro exI [of _ ?s']) simp
next
  case False
  let ?s' = "s\<lparr>clientRef := Some (new_client st),
               turnDetectionType := turnDetection st,
               trace := trace s @ [NewURL (endpoint st), NewRTClient (new_client st),
                         ConsoleLog ''Client created:'' ''connectAvatar'',
                         Configure (session_request w st)]\<rparr>"
  have "open_session w st s = after_configure w st sess ?s'"
    using assms False
    by (simp add: open_session_def stmt_defs block_done)
  then show ?thesis by (intro exI [of _ ?s']) simp
qed

text \<open>When no call of \<open>open_session\<close> throws, the session is opened.\<close>

lemma open_session_success:
  assumes "connect_failure w st = None"
  shows "fst (open_session w st s) = None \<and>
         clientRef (snd (open_session w st s)) = Some (new_client st) \<and>
         isConnected (snd (open_session w st s)) = True \<and>
         NewRTClient (new_client st) \<in> set (trace (snd (open_session w st s))) \<and>
         Configure (session_request w st) \<in> set (trace (snd (open_session w st s)))"
proof -
  from assms obtain sess where
    url: "new_URL_outcome w (endpoint st) = None" and
    cl: "new_RTClient_outcome w (new_client st) = None" and
    sc: "enableSearch st \<longrightarrow> new_SearchClient_outcome w (search_client st) = None" and
    cfg: "configure_outcome w (session_request w st) = Inr sess" and
    av: "(case session_avatar sess of None \<Rightarrow> None
          | Some ice_servers \<Rightarrow> getLocalDescription_outcome w ice_servers) = None"
    by (auto simp: connect_failure_def split: option.splits sum.splits if_splits)
  from open_session_configured [OF url cl sc cfg, of s] obtain s' where
    run: "open_session w st s = after_configure w st sess s'" and
    s': "clientRef s' = Some (new_client st)"
        "NewRTClient (new_client st) \<in> set (trace s')"
        "Configure (session_request w st) \<in> set (trace s')"
    by blast
  show ?thesis
    unfolding run
    using after_configure_run [OF av, of st s'] s' after_configure_mem [of _ s' w st sess]
    by simp
qed

text \<open>
  When one throws, \<open>open_session\<close> throws the same, with no Message appended and the
  connected flag untouched.
\<close>

lemma open_session_failure:
  assumes "connect_failure w st = Some e"
  shows "fst (open_session w st s) = Some e \<and>
         messages (snd (open_session w st s)) = messages s \<and>
         next_ref (snd (open_session w st s)) = next_ref s \<and>
         isConnected (snd (open_session w st s)) = isConnected s"
proof (cases "new_URL_outcome w (endpoint st)")
  case (Some e1)
  with assms show ?thesis by (simp add: connect_failure_def open_session_def stmt_defs)
next
  case None
  note url = None
  show ?thesis
  proof (cases "new_RTClient_outcome w (new_client st)")
    case (Some e2)
    with assms url show ?thesis by (simp add: connect_failure_def open_session_def stmt_defs)
  next
    case None
    note cl = None
    show ?thesis
    proof (cases "enableSearch st \<and> new_SearchClient_outcome w (search_client st) \<noteq> None")
      case True
      with assms url cl show ?thesis
        by (auto simp: connect_failure_def open_session_def stmt_defs)
    next
      case False
      then have sc: "enableSearch st \<longrightarrow> new_SearchClient_outcome w (search_client st) = None"
        by simp
      show ?thesis
      proof (cases "configure_outcome w (session_request w st)")
        case (Inl e4)
        with assms url cl sc show ?thesis
          by (cases "enableSearch st")
             (simp_all add: connect_failure_def open_session_def stmt_defs)
      next
        case (Inr sess)
        from assms url cl sc Inr have av:
          "(case session_avatar sess of None \<Rightarrow> None
            | Some ice_servers \<Rightarrow> getLocalDescription_outcome w ice_servers) = Some e"
          by (cases "enableSearch st") (simp_all add: connect_failure_def)
        from open_session_configured [OF url cl sc Inr, of s] obtain s' where
          run: "open_session w st s = after_configure w st sess s'" and
          s': "messages s' = messages s" "next_ref s' = next_ref s"
              "isConnected s' = isConnected s"
          by blast
        show ?thesis
          unfolding run using after_configure_thrown [OF av, of st s'] s' by simp
      qed
    qed
  qed
qed

lemma open_session_constructs:
  assumes url: "new_URL_outcome w (endpoint st) = None"
  shows "NewRTClient (new_client st) \<in> set (trace (snd (open_session w st s)))"
proof (cases "new_RTClient_outcome w (new_client st)")
  case (Some e2)
  with url show ?thesis by (simp add: open_session_def stmt_defs)
next
  case None
  note cl = None
  show ?thesis
  proof (cases "enableSearch st \<and> new_SearchClient_outcome w (search_client st) \<noteq> None")
    case True
    with url cl show ?thesis by (auto simp: open_session_def stmt_defs)
  next
    case False
    then have sc: "enableSearch st \<longrightarrow> new_SearchClient_outcome w (search_client st) = None"
      by simp
    show ?thesis
    proof (cases "configure_outcome w (session_request w st)")
      case (Inl e4)
      with url cl sc show ?thesis
        by (cases "enableSearch st") (simp_all add: open_session_def stmt_defs)
    next
      case (Inr sess)
      from open_session_configured [OF url cl sc Inr, of s] obtain s' where
        run: "open_session w st s = after_configure w st sess s'" and
        s': "NewRTClient (new_client st) \<in> set (trace s')"
        by blast
      show ?thesis unfolding run using s' by (rule after_configure_mem)
    qed
  qed
qed

text \<open>The \<^verbatim>\<open>catch\<close> and \<^verbatim>\<open>finally\<close> blocks around the body.\<close>

lemma connect_wrap:
  "fst (try_finally
      (try_catch body
         (\<lambda>e. block [console_error ''Connection failed:'' e,
                     assign (setMessages_append
                       \<lparr>type = Error, content = ''Error connecting to the server: '' @ e\<rparr>)]))
      (assign (\<lambda>s. s\<lparr>isConnecting := False\<rparr>)) s) = None \<and>
   clientRef (snd (try_finally
      (try_catch body
         (\<lambda>e. block [console_error ''Connection failed:'' e,
                     assign (setMessages_append
                       \<lparr>type = Error, content = ''Error connecting to the server: '' @ e\<rparr>)]))
      (assign (\<lambda>s. s\<lparr>isConnecting := False\<rparr>)) s)) = clientRef (snd (body s)) \<and>
   isConnected (snd (try_finally
      (try_catch body
         (\<lambda>e. block [console_error ''Connection failed:'' e,
                     assign (setMessages_append
                       \<lparr>type = Error, content = ''Error connecting to the server: '' @ e\<rparr>)]))
      (assign (\<lambda>s. s\<lparr>isConnecting := False\<rparr>)) s)) = isConnected (snd (body s)) \<and>
   (\<exists>t. trace (snd (try_finally
      (try_catch body
         (\<lambda>e. block [console_error ''Connection failed:'' e,
                     assign (setMessages_append
                       \<lparr>type = Error, content = ''Error connecting to the server: '' @ e\<rparr>)]))
      (assign (\<lambda>s. s\<lparr>isConnecting := False\<rparr>)) s)) = trace (snd (body s)) @ t)"
  by (cases "body s"; cases "fst (body s)") (simp_all add: stmt_defs)

lemma connect_wrap_caught:
  "fst (body s) = Some e \<Longrightarrow>
   messages (snd (try_finally
      (try_catch body
         (\<lambda>e. block [console_error ''Connection failed:'' e,
                     assign (setMessages_append
                       \<lparr>type = Error, content = ''Error connecting to the server: '' @ e\<rparr>)]))
      (assign (\<lambda>s. s\<lparr>isConnecting := False\<rparr>)) s))
     = messages (snd (body s)) @ [next_ref (snd (body s))] \<and>
   store (snd (try_finally
      (try_catch body
         (\<lambda>e. block [console_error ''Connection failed:'' e,
                     assign (setMessages_append
                       \<lparr>type = Error, content = ''Error connecting to the server: '' @ e\<rparr>)]))
      (assign (\<lambda>s. s\<lparr>isConnecting := False\<rparr>)) s)) (next_ref (snd (body s)))
     = \<lparr>type = Error, content = ''Error connecting to the server: '' @ e\<rparr>"
  by (cases "body s") (simp add: stmt_defs)

text \<open>
  C8. \<^verbatim>\<open>handleConnect\<close> checks no credential. With neither an API key nor a token
  (and not in agent mode without an agent) it builds the key credential from the empty
  key and, when \<^verbatim>\<open>new URL(endpoint)\<close> returns, constructs the client with it. What
  follows is decided by the calls it makes (the URL, the client constructor, the search
  client constructor, \<^verbatim>\<open>configure\<close>): when none throws, the client is kept,
  \<^verbatim>\<open>configure\<close> has been called on it and the session ends connected; when one throws
  \<open>e\<close>, the one Message appended is ``Error connecting to the server: \<open>e\<close>'' and the
  session stays disconnected. \<^verbatim>\<open>handleConnect\<close> itself never throws.
\<close>

theorem no_credential_check:
  assumes "\<not> isConnected st" and "apiKey st = []" and "entraToken st = []"
    and "\<not> (mode st = agent_mode \<and> agentId st = [])"
  shows "client_auth (new_client st) = KeyCredential [] \<and>
         fst (handleConnect w st) = None \<and>
         (new_URL_outcome w (endpoint st) = None \<longrightarrow>
            NewRTClient (new_client st) \<in> set (trace (snd (handleConnect w st)))) \<and>
         (connect_failure w st = None \<longrightarrow>
            clientRef (snd (handleConnect w st)) = Some (new_client st) \<and>
            Configure (session_request w st) \<in> set (trace (snd (handleConnect w st))) \<and>
            isConnected (snd (handleConnect w st)) = True) \<and>
         (connect_failure w st = Some e \<longrightarrow>
            messages (snd (handleConnect w st)) = messages st @ [next_ref st] \<and>
            store (snd (handleConnect w st)) (next_ref st)
              = \<lparr>type = Error, content = ''Error connecting to the server: '' @ e\<rparr> \<and>
            isConnected (snd (handleConnect w st)) = False)"
proof -
  let ?s1 = "st\<lparr>isConnecting := True\<rparr>"
  let ?s2 = "snd ((if configLoaded st then refresh_config w else skip) ?s1)"
  note r = refresh_opt_run [of "configLoaded st" w ?s1]
  have body: "connect_body w st st = open_session w st ?s2"
    using r
    by (simp add: connect_body_def if_not_P [OF assms(4)] block_Cons_ok block_single assign_run
          del: block.simps)
  have hc: "handleConnect w st = try_finally
      (try_catch (connect_body w st)
         (\<lambda>e. block [console_error ''Connection failed:'' e,
                     assign (setMessages_append
                       \<lparr>type = Error, content = ''Error connecting to the server: '' @ e\<rparr>)]))
      (assign (\<lambda>s. s\<lparr>isConnecting := False\<rparr>)) st"
    using assms(1) by (simp add: handleConnect_def)
  have auth: "client_auth (new_client st) = KeyCredential []"
    using assms(2,3) by (simp add: new_client_def clientAuth_def)
  from connect_wrap [of "connect_body w st" st] obtain t where
    ok: "fst (handleConnect w st) = None" and
    cl: "clientRef (snd (handleConnect w st)) = clientRef (snd (open_session w st ?s2))" and
    ic: "isConnected (snd (handleConnect w st)) = isConnected (snd (open_session w st ?s2))" and
    tr: "trace (snd (handleConnect w st)) = trace (snd (open_session w st ?s2)) @ t"
    unfolding hc body by blast
  have constructs: "NewRTClient (new_client st) \<in> set (trace (snd (handleConnect w st)))"
    if "new_URL_outcome w (endpoint st) = None"
    using open_session_constructs [OF that, of ?s2] tr by simp
  have success: "clientRef (snd (handleConnect w st)) = Some (new_client st) \<and>
            Configure (session_request w st) \<in> set (trace (snd (handleConnect w st))) \<and>
            isConnected (snd (handleConnect w st)) = True"
    if "connect_failure w st = None"
    using open_session_success [OF that, of ?s2] cl ic tr by simp
  have failure: "messages (snd (handleConnect w st)) = messages st @ [next_ref st] \<and>
            store (snd (handleConnect w st)) (next_ref st)
              = \<lparr>type = Error, content = ''Error connecting to the server: '' @ e\<rparr> \<and>
            isConnected (snd (handleConnect w st)) = False"
    if "connect_failure w st = Some e"
  proof -
    note f = open_session_failure [OF that, of ?s2]
    from f have thrown: "fst (connect_body w st st) = Some e" by (simp add: body)
    from connect_wrap_caught [of "connect_body w st" st e, OF thrown] f r assms(1) ic
    show ?thesis
      unfolding hc [symmetric] body by simp
  qed
  show ?thesis using auth ok constructs success failure by blast
qed

theorem no_credential_check_witness:
  "client_auth (new_client no_credentials_state) = KeyCredential [] \<and>
   clientRef (snd (handleConnect quiet_environment no_credentials_state))
     = Some (new_client no_credentials_state) \<and>
   Configure (session_request quiet_environment no_credentials_state)
     \<in> set (trace (snd (handleConnect quiet_environment no_credentials_state))) \<and>
   isConnected (snd (handleConnect quiet_environment no_credentials_state)) = True \<and>
   rendered (snd (handleConnect quiet_environment initial_state))
     = [\<lparr>type = Error, content = ''Error connecting to the server: TypeError: Invalid URL''\<rparr>] \<and>
   rendered (snd (handleConnect failing_configure no_credentials_state))
     = [\<lparr>type = Error,
         content = ''Error connecting to the server: Error: 401 Unauthorized''\<rparr>] \<and>
   isConnected (snd (handleConnect failing_configure no_credentials_state)) = False"
  using no_credential_check [of no_credentials_state quiet_environment]
        no_credential_check [of initial_state quiet_environment "''TypeError: Invalid URL''"]
        no_credential_check [of no_credentials_state failing_configure
          "''Error: 401 Unauthorized''"]
  by (simp add: example_defs connect_failure_def rendered_def)

text \<open>
  With an endpoint and neither key nor token, in an environment that accepts the
  connection, \<^verbatim>\<open>handleConnect\<close> ends connected; the log holds the status Message of
  a started session and no error.
\<close>

theorem connect_without_credentials_counterexample:
  "fst (handleConnect quiet_environment no_credentials_state) = None \<and>
   isConnected (snd (handleConnect quiet_environment no_credentials_state)) = True \<and>
   rendered (snd (handleConnect quiet_environment no_credentials_state)) =
     [\<lparr>type = Status,
       content = ''Session started, click on the mic button to start conversation! debug id: sess_1''\<rparr>]"
  by (simp add: handleConnect_def connect_body_def open_session_def after_configure_def
        stmt_defs example_defs rendered_def)

end
